theory Spec2Isabelle
  imports Complex_Main
begin

section \<open>Audio source component: data model\<close>

text \<open>
  The embedding covers \<^verbatim>\<open>src/framework/components/audio-source/component.js\<close>
  (class \<^verbatim>\<open>AudioSourceComponent\<close>) and \<^verbatim>\<open>src/core/shape/plane.js\<close>
  (class \<^verbatim>\<open>Plane\<close>).

  JavaScript objects are mutable and shared, so the component, the asset objects, the
  objects held in \<^verbatim>\<open>data.sources\<close> and the closures that one call of
  \<^verbatim>\<open>loadAudioSourceAssets\<close> creates all live in one explicit state, the record
  \<open>world\<close>. Every method of the class is a function from \<open>world\<close> to \<open>world\<close>.
  Numbers are modelled as reals (no rounding, no NaN); a resource is either absent
  (\<open>None\<close>, JavaScript's null or undefined, falsy) or a decoded sound \<open>Some r\<close> (truthy).

  One component is modelled, with the listeners it subscribes itself. The method
  \<^verbatim>\<open>onSetAssets\<close> (lines 121-159) is not part of the model; it calls
  \<^verbatim>\<open>loadAudioSourceAssets\<close> only with a non-empty list (line 156).

  The object in \<^verbatim>\<open>data.sources\<close> is a plain object (\<^verbatim>\<open>{}\<close>, line 303): the model
  keeps its own keys in a map, and a read \<^verbatim>\<open>sources[name]\<close> that finds no own key goes
  on to the properties inherited from \<^verbatim>\<open>Object.prototype\<close> (\<open>truthy_entry\<close> below). An
  asset whose name is \<^verbatim>\<open>__proto__\<close> is outside the model: an assignment to that key
  would replace the prototype of the object.
\<close>

record vec3 =
  vx :: real
  vy :: real
  vz :: real

type_synonym resource = nat
type_synonym jsval = "resource option"

text \<open>
  Event subscriptions. A listener is identified by its callback: the two methods of the
  component, and the closure \<^verbatim>\<open>_error\<close> of one call of \<^verbatim>\<open>loadAudioSourceAssets\<close>
  (a fresh function object per call, named here by the number of the call).
\<close>

datatype event_kind = EvChange | EvRemove | EvError

datatype listener = OnAssetChanged | OnAssetRemoved | BatchError nat

text \<open>
  The callbacks handed to \<^verbatim>\<open>asset.ready\<close>: the one of a load batch (lines 337-343) and
  the one installed for an asset that is added to the registry later (lines 355-357).
\<close>

datatype ready_cb = BatchReady nat | LateReady

text \<open>An element of \<^verbatim>\<open>data.assets\<close>: an \<^verbatim>\<open>Asset\<close> instance or an asset id.\<close>

datatype asset_ref = AssetInst nat | AssetId nat

record asset =
  asset_name :: string
  asset_resource :: jsval
  listeners :: "event_kind \<Rightarrow> listener list"
  load_once :: "ready_cb list"

record audio_channel =
  ch_id :: nat
  ch_3d :: bool
  ch_paused :: bool
  ch_suspended :: bool
  ch_loop :: bool
  ch_volume :: real
  ch_pitch :: real
  ch_minDistance :: real
  ch_maxDistance :: real
  ch_rollOffFactor :: real
  ch_distanceModel :: string

text \<open>
  What a truthy read of \<^verbatim>\<open>sources[name]\<close> gives, and so what \<^verbatim>\<open>play\<close> hands to the
  backend as the sound: a resource stored under the name, or the built-in property of
  that name that every plain object inherits.
\<close>

datatype sound_arg = Sound resource | Builtin string

text \<open>Every call that reaches the audio backend is appended to a log.\<close>

datatype backend_call =
    PlaySound sound_arg
  | PlaySound3d sound_arg vec3
  | ChPause nat
  | ChUnpause nat
  | ChStop nat
  | ChSetLoop nat bool
  | ChSetVolume nat real
  | ChSetPitch nat real
  | ChSetMaxDistance nat real
  | ChSetMinDistance nat real
  | ChSetRollOffFactor nat real
  | ChSetDistanceModel nat string

text \<open>
  The variables that the closures of one call of \<^verbatim>\<open>loadAudioSourceAssets\<close> share:
  \<^verbatim>\<open>count\<close> and \<^verbatim>\<open>currentSource\<close>. The third, the object \<^verbatim>\<open>sources\<close>, lives in
  \<open>src_heap\<close> at the address that is the number of the call.
\<close>

record batch =
  b_count :: int
  b_currentSource :: "string option"

text \<open>
  The state. The first fourteen fields are \<^verbatim>\<open>this.data\<close> (the component's accessors read
  and write it, so \<^verbatim>\<open>this.channel\<close> is \<^verbatim>\<open>this.data.channel\<close>); \<open>sources\<close> is the
  address in \<open>src_heap\<close> of the object that \<^verbatim>\<open>data.sources\<close> refers to.
  \<open>asset_objs\<close> holds the asset objects by id and \<open>registry\<close> the ids that
  \<^verbatim>\<open>registry.get\<close> finds. \<open>calls\<close>, \<open>loads\<close> and \<open>completions\<close> are logs: of the calls
  to the audio backend, of the calls to \<^verbatim>\<open>registry.load\<close>, and of the runs of \<^verbatim>\<open>_done\<close>
  (the batch, and the value it assigned to \<^verbatim>\<open>data.currentSource\<close>).
\<close>

record world =
  enabled :: bool
  assets :: "asset_ref list"
  activate :: bool
  volume :: real
  pitch :: real
  loop :: bool
  is3d :: bool
  minDistance :: real
  maxDistance :: real
  rollOffFactor :: real
  distanceModel :: string
  sources :: nat
  currentSource :: "string option"
  channel :: "audio_channel option"
  entity_enabled :: bool
  entity_position :: vec3
  initialized :: bool
  asset_objs :: "nat \<Rightarrow> asset"
  registry :: "nat set"
  add_ls :: "nat \<Rightarrow> nat"
  src_heap :: "nat \<Rightarrow> (string \<rightharpoonup> jsval)"
  batches :: "nat \<Rightarrow> batch"
  next_batch :: nat
  next_channel :: nat
  calls :: "backend_call list"
  loads :: "nat list"
  completions :: "(nat \<times> string option) list"

section \<open>JavaScript values\<close>

text \<open>A string is truthy unless it is empty; null is falsy.\<close>

definition truthy_name :: "string option \<Rightarrow> bool" where
  "truthy_name n = (case n of None \<Rightarrow> False | Some k \<Rightarrow> k \<noteq> [])"

text \<open>\<^verbatim>\<open>currentSource || asset.name\<close>\<close>

definition js_or :: "string option \<Rightarrow> string \<Rightarrow> string option" where
  "js_or cs n = (if truthy_name cs then cs else Some n)"

text \<open>The property key that \<^verbatim>\<open>sources[name]\<close> reads: null is converted to a string.\<close>

definition js_key :: "string option \<Rightarrow> string" where
  "js_key n = (case n of None \<Rightarrow> ''null'' | Some k \<Rightarrow> k)"

text \<open>The object that \<^verbatim>\<open>this.data.sources\<close> refers to.\<close>

definition cur_sources :: "world \<Rightarrow> (string \<rightharpoonup> jsval)" where
  "cur_sources s = src_heap s (sources s)"

text \<open>
  The names of the properties of \<^verbatim>\<open>Object.prototype\<close>. Each is a function, or for
  \<^verbatim>\<open>__proto__\<close> the prototype itself, so each is truthy.
\<close>

definition object_prototype_keys :: "string list" where
  "object_prototype_keys =
     [''constructor'', ''hasOwnProperty'', ''isPrototypeOf'', ''propertyIsEnumerable'',
      ''toLocaleString'', ''toString'', ''valueOf'', ''__proto__'', ''__defineGetter__'',
      ''__defineSetter__'', ''__lookupGetter__'', ''__lookupSetter__'']"

text \<open>
  The test \<^verbatim>\<open>if (sources[name])\<close> on a plain object whose own keys are \<open>m\<close>: the value
  read if it is truthy, \<open>None\<close> if it is falsy. An own key wins, also when its value is
  null; without an own key the read follows the prototype chain.
\<close>

definition truthy_entry :: "(string \<rightharpoonup> jsval) \<Rightarrow> string \<Rightarrow> sound_arg option" where
  "truthy_entry m k =
     (case m k of
        Some v \<Rightarrow> map_option Sound v
      | None \<Rightarrow> (if k \<in> set object_prototype_keys then Some (Builtin k) else None))"

section \<open>Collaborators\<close>

text \<open>
  Modelled from the spec: the audio backend (\<^verbatim>\<open>platform/audio\<close>, not among the sources).
  \<^verbatim>\<open>playSound\<close> and \<^verbatim>\<open>playSound3d\<close> create a channel in the state Playing from the
  resource and the component's parameters; \<^verbatim>\<open>pause\<close> and \<^verbatim>\<open>unpause\<close> of a channel
  move it between Playing and Paused.
\<close>

definition new_channel :: "bool \<Rightarrow> world \<Rightarrow> audio_channel" where
  "new_channel positional s =
     \<lparr>ch_id = next_channel s, ch_3d = positional, ch_paused = False, ch_suspended = False,
      ch_loop = loop s, ch_volume = volume s, ch_pitch = pitch s,
      ch_minDistance = minDistance s, ch_maxDistance = maxDistance s,
      ch_rollOffFactor = rollOffFactor s, ch_distanceModel = distanceModel s\<rparr>"

definition playSound :: "sound_arg \<Rightarrow> world \<Rightarrow> audio_channel \<times> world" where
  "playSound r s =
     (new_channel False s,
      s\<lparr>next_channel := Suc (next_channel s), calls := calls s @ [PlaySound r]\<rparr>)"

definition playSound3d :: "sound_arg \<Rightarrow> vec3 \<Rightarrow> world \<Rightarrow> audio_channel \<times> world" where
  "playSound3d r pos s =
     (new_channel True s,
      s\<lparr>next_channel := Suc (next_channel s), calls := calls s @ [PlaySound3d r pos]\<rparr>)"

definition channel_pause :: "audio_channel \<Rightarrow> audio_channel" where
  "channel_pause c = c\<lparr>ch_paused := True\<rparr>"

definition channel_unpause :: "audio_channel \<Rightarrow> audio_channel" where
  "channel_unpause c = c\<lparr>ch_paused := False\<rparr>"

text \<open>
  Modelled from the spec: the asset registry and the event interface of an asset handle
  (\<^verbatim>\<open>framework/asset\<close>, not among the sources). \<^verbatim>\<open>get\<close> finds the registered assets,
  \<^verbatim>\<open>load\<close> only requests a load (the result arrives later as an event), \<^verbatim>\<open>on\<close> appends
  a listener and \<^verbatim>\<open>off\<close> removes the listeners with the same callback.
\<close>

definition registry_get :: "world \<Rightarrow> nat \<Rightarrow> nat option" where
  "registry_get s i = (if i \<in> registry s then Some i else None)"

definition registry_load :: "nat \<Rightarrow> world \<Rightarrow> world" where
  "registry_load a s = s\<lparr>loads := loads s @ [a]\<rparr>"

definition asset_on :: "event_kind \<Rightarrow> listener \<Rightarrow> nat \<Rightarrow> world \<Rightarrow> world" where
  "asset_on ev l a s =
     s\<lparr>asset_objs := (asset_objs s)(a := (asset_objs s a)
        \<lparr>listeners := (listeners (asset_objs s a))(ev := listeners (asset_objs s a) ev @ [l])\<rparr>)\<rparr>"

definition asset_off :: "event_kind \<Rightarrow> listener \<Rightarrow> nat \<Rightarrow> world \<Rightarrow> world" where
  "asset_off ev l a s =
     s\<lparr>asset_objs := (asset_objs s)(a := (asset_objs s a)
        \<lparr>listeners := (listeners (asset_objs s a))
           (ev := filter (\<lambda>x. x \<noteq> l) (listeners (asset_objs s a) ev))\<rparr>)\<rparr>"

section \<open>The channel controller\<close>

text \<open>\<^verbatim>\<open>stop()\<close>, lines 114-119.\<close>

definition stop :: "world \<Rightarrow> world" where
  "stop s =
     (case channel s of
        Some c \<Rightarrow> s\<lparr>calls := calls s @ [ChStop (ch_id c)], channel := None\<rparr>
      | None \<Rightarrow> s)"

text \<open>
  \<^verbatim>\<open>play(name)\<close>, lines 66-90. The argument may be null (\<^verbatim>\<open>onEnable\<close> passes
  \<^verbatim>\<open>this.currentSource\<close>). The read \<^verbatim>\<open>componentData.sources[name]\<close> of line 78 is
  \<open>truthy_entry\<close>: for a name that is no own key but is inherited from
  \<^verbatim>\<open>Object.prototype\<close> the test succeeds and the inherited value is passed on as the
  sound. No statement of the method can throw, so the result is a state.
\<close>

definition play :: "string option \<Rightarrow> world \<Rightarrow> world" where
  "play name s =
     (if \<not> enabled s \<or> \<not> entity_enabled s then s
      else
        let s1 = (case channel s of Some c \<Rightarrow> stop s | None \<Rightarrow> s) in
        (case truthy_entry (cur_sources s1) (js_key name) of
           Some v \<Rightarrow>
             (if \<not> is3d s1 then
                (case playSound v s1 of
                   (c, s2) \<Rightarrow> s2\<lparr>currentSource := name, channel := Some c\<rparr>)
              else
                (case playSound3d v (entity_position s1) s1 of
                   (c, s2) \<Rightarrow> s2\<lparr>currentSource := name, channel := Some c\<rparr>))
         | None \<Rightarrow> s1))"

text \<open>\<^verbatim>\<open>pause()\<close>, lines 96-100, and \<^verbatim>\<open>unpause()\<close>, lines 105-109.\<close>

definition pause :: "world \<Rightarrow> world" where
  "pause s =
     (case channel s of
        Some c \<Rightarrow> s\<lparr>calls := calls s @ [ChPause (ch_id c)], channel := Some (channel_pause c)\<rparr>
      | None \<Rightarrow> s)"

definition unpause :: "world \<Rightarrow> world" where
  "unpause s =
     (case channel s of
        Some c \<Rightarrow>
          (if ch_paused c
           then s\<lparr>calls := calls s @ [ChUnpause (ch_id c)], channel := Some (channel_unpause c)\<rparr>
           else s)
      | None \<Rightarrow> s)"

text \<open>
  \<^verbatim>\<open>onAssetChanged\<close>, lines 161-179. \<^verbatim>\<open>data.sources\<close> always refers to an object,
  so the test \<^verbatim>\<open>if (sources)\<close> succeeds; the new value is stored whatever it is.
\<close>

definition onAssetChanged :: "nat \<Rightarrow> string \<Rightarrow> jsval \<Rightarrow> jsval \<Rightarrow> world \<Rightarrow> world" where
  "onAssetChanged a attribute newValue oldValue s =
     (if attribute = ''resource'' then
        let nm = asset_name (asset_objs s a);
            s1 = s\<lparr>src_heap := (src_heap s)(sources s := (cur_sources s)(nm \<mapsto> newValue))\<rparr>
        in
          if currentSource s1 = Some nm then
            (case channel s1 of
               Some c \<Rightarrow>
                 (if ch_paused c then pause (play (Some nm) s1) else play (Some nm) s1)
             | None \<Rightarrow> s1)
          else s1
      else s)"

text \<open>
  \<^verbatim>\<open>onAssetRemoved\<close>, lines 181-190. The entry is tested for truthiness, by the same
  read as in \<^verbatim>\<open>play\<close>; \<^verbatim>\<open>delete\<close> removes an own key only.
\<close>

definition onAssetRemoved :: "nat \<Rightarrow> world \<Rightarrow> world" where
  "onAssetRemoved a s =
     (let s1 = asset_off EvRemove OnAssetRemoved a s;
          nm = asset_name (asset_objs s1 a)
      in
        (case truthy_entry (cur_sources s1) nm of
           Some v \<Rightarrow>
             (let s2 = s1\<lparr>src_heap := (src_heap s1)(sources s1 := (cur_sources s1)(nm := None))\<rparr>
              in if currentSource s2 = Some nm then (stop s2)\<lparr>currentSource := None\<rparr> else s2)
         | None \<Rightarrow> s1))"

text \<open>The handlers of the parameter changes, lines 192-246.\<close>

definition onSetLoop :: "string \<Rightarrow> bool \<Rightarrow> bool \<Rightarrow> world \<Rightarrow> world" where
  "onSetLoop name oldValue newValue s =
     (if oldValue \<noteq> newValue then
        (case channel s of
           Some c \<Rightarrow> s\<lparr>calls := calls s @ [ChSetLoop (ch_id c) newValue],
                       channel := Some (c\<lparr>ch_loop := newValue\<rparr>)\<rparr>
         | None \<Rightarrow> s)
      else s)"

definition onSetVolume :: "string \<Rightarrow> real \<Rightarrow> real \<Rightarrow> world \<Rightarrow> world" where
  "onSetVolume name oldValue newValue s =
     (if oldValue \<noteq> newValue then
        (case channel s of
           Some c \<Rightarrow> s\<lparr>calls := calls s @ [ChSetVolume (ch_id c) newValue],
                       channel := Some (c\<lparr>ch_volume := newValue\<rparr>)\<rparr>
         | None \<Rightarrow> s)
      else s)"

definition onSetPitch :: "string \<Rightarrow> real \<Rightarrow> real \<Rightarrow> world \<Rightarrow> world" where
  "onSetPitch name oldValue newValue s =
     (if oldValue \<noteq> newValue then
        (case channel s of
           Some c \<Rightarrow> s\<lparr>calls := calls s @ [ChSetPitch (ch_id c) newValue],
                       channel := Some (c\<lparr>ch_pitch := newValue\<rparr>)\<rparr>
         | None \<Rightarrow> s)
      else s)"

definition onSetMaxDistance :: "string \<Rightarrow> real \<Rightarrow> real \<Rightarrow> world \<Rightarrow> world" where
  "onSetMaxDistance name oldValue newValue s =
     (if oldValue \<noteq> newValue then
        (case channel s of
           Some c \<Rightarrow>
             (if ch_3d c
              then s\<lparr>calls := calls s @ [ChSetMaxDistance (ch_id c) newValue],
                     channel := Some (c\<lparr>ch_maxDistance := newValue\<rparr>)\<rparr>
              else s)
         | None \<Rightarrow> s)
      else s)"

definition onSetMinDistance :: "string \<Rightarrow> real \<Rightarrow> real \<Rightarrow> world \<Rightarrow> world" where
  "onSetMinDistance name oldValue newValue s =
     (if oldValue \<noteq> newValue then
        (case channel s of
           Some c \<Rightarrow>
             (if ch_3d c
              then s\<lparr>calls := calls s @ [ChSetMinDistance (ch_id c) newValue],
                     channel := Some (c\<lparr>ch_minDistance := newValue\<rparr>)\<rparr>
              else s)
         | None \<Rightarrow> s)
      else s)"

definition onSetRollOffFactor :: "string \<Rightarrow> real \<Rightarrow> real \<Rightarrow> world \<Rightarrow> world" where
  "onSetRollOffFactor name oldValue newValue s =
     (if oldValue \<noteq> newValue then
        (case channel s of
           Some c \<Rightarrow>
             (if ch_3d c
              then s\<lparr>calls := calls s @ [ChSetRollOffFactor (ch_id c) newValue],
                     channel := Some (c\<lparr>ch_rollOffFactor := newValue\<rparr>)\<rparr>
              else s)
         | None \<Rightarrow> s)
      else s)"

definition onSetDistanceModel :: "string \<Rightarrow> string \<Rightarrow> string \<Rightarrow> world \<Rightarrow> world" where
  "onSetDistanceModel name oldValue newValue s =
     (if oldValue \<noteq> newValue then
        (case channel s of
           Some c \<Rightarrow>
             (if ch_3d c
              then s\<lparr>calls := calls s @ [ChSetDistanceModel (ch_id c) newValue],
                     channel := Some (c\<lparr>ch_distanceModel := newValue\<rparr>)\<rparr>
              else s)
         | None \<Rightarrow> s)
      else s)"

text \<open>
  \<^verbatim>\<open>onSet3d\<close>, lines 248-266. The flags are written to the fields of whatever channel is
  live after \<^verbatim>\<open>play\<close>.
\<close>

definition onSet3d :: "string \<Rightarrow> bool \<Rightarrow> bool \<Rightarrow> world \<Rightarrow> world" where
  "onSet3d name oldValue newValue s =
     (if oldValue \<noteq> newValue then
        (if initialized s \<and> truthy_name (currentSource s) then
           let paused = (case channel s of Some c \<Rightarrow> ch_paused c | None \<Rightarrow> False);
               suspended = (case channel s of Some c \<Rightarrow> ch_suspended c | None \<Rightarrow> False);
               s1 = play (currentSource s) s
           in
             (case channel s1 of
                Some c \<Rightarrow> s1\<lparr>channel := Some (c\<lparr>ch_paused := paused, ch_suspended := suspended\<rparr>)\<rparr>
              | None \<Rightarrow> s1)
         else s)
      else s)"

text \<open>
  Modelled from the spec: the property accessors that the component base class builds
  (\<^verbatim>\<open>framework/components/component.js\<close>, not among the sources). Assigning a property
  stores the value in \<^verbatim>\<open>this.data\<close> and then calls the handler registered in the
  constructor (lines 50-58) with the old and the new value.
\<close>

definition setLoop :: "bool \<Rightarrow> world \<Rightarrow> world" where
  "setLoop v s = onSetLoop ''loop'' (loop s) v (s\<lparr>loop := v\<rparr>)"

definition setVolume :: "real \<Rightarrow> world \<Rightarrow> world" where
  "setVolume v s = onSetVolume ''volume'' (volume s) v (s\<lparr>volume := v\<rparr>)"

definition setPitch :: "real \<Rightarrow> world \<Rightarrow> world" where
  "setPitch v s = onSetPitch ''pitch'' (pitch s) v (s\<lparr>pitch := v\<rparr>)"

definition setMinDistance :: "real \<Rightarrow> world \<Rightarrow> world" where
  "setMinDistance v s = onSetMinDistance ''minDistance'' (minDistance s) v (s\<lparr>minDistance := v\<rparr>)"

definition setMaxDistance :: "real \<Rightarrow> world \<Rightarrow> world" where
  "setMaxDistance v s = onSetMaxDistance ''maxDistance'' (maxDistance s) v (s\<lparr>maxDistance := v\<rparr>)"

definition setRollOffFactor :: "real \<Rightarrow> world \<Rightarrow> world" where
  "setRollOffFactor v s =
     onSetRollOffFactor ''rollOffFactor'' (rollOffFactor s) v (s\<lparr>rollOffFactor := v\<rparr>)"

definition setDistanceModel :: "string \<Rightarrow> world \<Rightarrow> world" where
  "setDistanceModel v s =
     onSetDistanceModel ''distanceModel'' (distanceModel s) v (s\<lparr>distanceModel := v\<rparr>)"

definition setPositional :: "bool \<Rightarrow> world \<Rightarrow> world" where
  "setPositional v s = onSet3d ''3d'' (is3d s) v (s\<lparr>is3d := v\<rparr>)"

text \<open>\<^verbatim>\<open>onEnable\<close>, lines 268-292: first the loop over \<^verbatim>\<open>data.assets\<close>, lines 274-282.\<close>

fun load_unresolved :: "asset_ref list \<Rightarrow> world \<Rightarrow> world" where
  "load_unresolved [] s = s"
| "load_unresolved (x # xs) s =
     load_unresolved xs
       (case (case x of AssetInst i \<Rightarrow> Some i | AssetId i \<Rightarrow> registry_get s i) of
          Some a \<Rightarrow> (if asset_resource (asset_objs s a) = None then registry_load a s else s)
        | None \<Rightarrow> s)"

definition onEnable :: "world \<Rightarrow> world" where
  "onEnable s =
     (let s1 = load_unresolved (assets s) s in
      if initialized s1 then
        (if activate s1 \<and> channel s1 = None then play (currentSource s1) s1 else unpause s1)
      else s1)"

text \<open>\<^verbatim>\<open>onDisable\<close>, lines 294-296.\<close>

definition onDisable :: "world \<Rightarrow> world" where
  "onDisable s = pause s"

section \<open>The resource resolver\<close>

text \<open>
  \<^verbatim>\<open>loadAudioSourceAssets\<close>, lines 298-364. One call is a batch \<open>k\<close>; its closures are
  functions of \<open>k\<close>.

  \<^verbatim>\<open>count--\<close>, and \<^verbatim>\<open>_error\<close>, lines 309-311, which does nothing else.
\<close>

definition dec_count :: "nat \<Rightarrow> world \<Rightarrow> world" where
  "dec_count k s =
     s\<lparr>batches := (batches s)(k := (batches s k)\<lparr>b_count := b_count (batches s k) - 1\<rparr>)\<rparr>"

definition batch_error :: "nat \<Rightarrow> world \<Rightarrow> world" where
  "batch_error k s = dec_count k s"

text \<open>
  \<^verbatim>\<open>_done\<close>, lines 314-321. \<^verbatim>\<open>data.sources\<close> becomes the batch's own object (the same
  object, not a copy).
\<close>

definition batch_done :: "nat \<Rightarrow> world \<Rightarrow> world" where
  "batch_done k s =
     (let cs = b_currentSource (batches s k);
          s1 = s\<lparr>sources := k, currentSource := cs, completions := completions s @ [(k, cs)]\<rparr>
      in if enabled s1 \<and> activate s1 \<and> truthy_name cs then onEnable s1 else s1)"

text \<open>The callback of \<^verbatim>\<open>asset.ready\<close>, lines 337-343.\<close>

definition batch_ready :: "nat \<Rightarrow> nat \<Rightarrow> world \<Rightarrow> world" where
  "batch_ready k a s =
     (let s1 = dec_count k
                 (s\<lparr>src_heap := (src_heap s)
                    (k := (src_heap s k)
                       (asset_name (asset_objs s a) \<mapsto> asset_resource (asset_objs s a)))\<rparr>)
      in if b_count (batches s1 k) = 0 then batch_done k s1 else s1)"

text \<open>
  The callback of \<^verbatim>\<open>asset.ready\<close> for an asset added later, lines 355-357: it writes to
  whatever object \<^verbatim>\<open>this.data.sources\<close> refers to when it runs.
\<close>

definition late_ready :: "nat \<Rightarrow> world \<Rightarrow> world" where
  "late_ready a s =
     s\<lparr>src_heap := (src_heap s)
        (sources s := (cur_sources s)(asset_name (asset_objs s a) \<mapsto> asset_resource (asset_objs s a)))\<rparr>"

fun run_ready_cb :: "nat \<Rightarrow> ready_cb \<Rightarrow> world \<Rightarrow> world" where
  "run_ready_cb a (BatchReady k) s = batch_ready k a s"
| "run_ready_cb a LateReady s = late_ready a s"

text \<open>
  Modelled from the spec: \<^verbatim>\<open>Handle.ready(callback)\<close> of the asset handle. A handle whose
  resource is available calls back at once; otherwise the callback waits for the load.
\<close>

definition asset_ready :: "nat \<Rightarrow> ready_cb \<Rightarrow> world \<Rightarrow> world" where
  "asset_ready a cb s =
     (case asset_resource (asset_objs s a) of
        Some r \<Rightarrow> run_ready_cb a cb s
      | None \<Rightarrow>
          s\<lparr>asset_objs := (asset_objs s)
             (a := (asset_objs s a)\<lparr>load_once := load_once (asset_objs s a) @ [cb]\<rparr>)\<rparr>)"

text \<open>
  The subscriptions of lines 329-336: \<^verbatim>\<open>off\<close> then \<^verbatim>\<open>on\<close>, for each of the three
  events. The callback of the third is the closure \<^verbatim>\<open>_error\<close> of this batch.
\<close>

definition subscribe :: "nat \<Rightarrow> nat \<Rightarrow> world \<Rightarrow> world" where
  "subscribe k a s =
     asset_on EvError (BatchError k) a (asset_off EvError (BatchError k) a
       (asset_on EvRemove OnAssetRemoved a (asset_off EvRemove OnAssetRemoved a
         (asset_on EvChange OnAssetChanged a (asset_off EvChange OnAssetChanged a s)))))"

text \<open>\<^verbatim>\<open>currentSource = currentSource || asset.name\<close>, line 326.\<close>

definition note_name :: "nat \<Rightarrow> nat \<Rightarrow> world \<Rightarrow> world" where
  "note_name k a s =
     s\<lparr>batches := (batches s)(k := (batches s k)
        \<lparr>b_currentSource := js_or (b_currentSource (batches s k)) (asset_name (asset_objs s a))\<rparr>)\<rparr>"

text \<open>
  The body of \<^verbatim>\<open>assets.forEach\<close>, lines 323-363, for one element: the handle that
  \<^verbatim>\<open>registry.get\<close> returned (or none) and the id at the same index.
\<close>

definition load_entry :: "nat \<Rightarrow> nat option \<times> nat \<Rightarrow> world \<Rightarrow> world" where
  "load_entry k e s =
     (case fst e of
        Some a \<Rightarrow>
          (let s1 = asset_ready a (BatchReady k) (subscribe k a (note_name k a s))
           in if asset_resource (asset_objs s1 a) = None \<and> enabled s1 \<and> entity_enabled s1
              then registry_load a s1 else s1)
      | None \<Rightarrow>
          (let s1 = dec_count k s;
               s2 = (if b_count (batches s1 k) = 0 then batch_done k s1 else s1)
           in s2\<lparr>add_ls := (add_ls s2)(snd e := Suc (add_ls s2 (snd e)))\<rparr>))"

fun load_each :: "nat \<Rightarrow> (nat option \<times> nat) list \<Rightarrow> world \<Rightarrow> world" where
  "load_each k [] s = s"
| "load_each k (e # es) s = load_each k es (load_entry k e s)"

definition loadAudioSourceAssets :: "nat list \<Rightarrow> world \<Rightarrow> world" where
  "loadAudioSourceAssets ids s =
     (let k = next_batch s;
          s0 = s\<lparr>next_batch := Suc k,
                 src_heap := (src_heap s)(k := Map.empty),
                 batches := (batches s)
                   (k := \<lparr>b_count = int (length ids), b_currentSource = None\<rparr>)\<rparr>
      in load_each k (zip (map (registry_get s) ids) ids) s0)"

section \<open>Events of the registry and of the asset handles\<close>

text \<open>
  Modelled from the spec: what the registry delivers to the component (section 6 of the
  spec). An event calls the listeners subscribed when it starts, in the order of their
  subscription. A load makes the resource available and runs the callbacks that wait for
  it, once each.
\<close>

datatype event =
    AssetLoaded nat resource
  | AssetError nat
  | AssetChange nat string jsval jsval
  | AssetRemove nat
  | RegistryAdd nat

fun notify_error :: "listener \<Rightarrow> world \<Rightarrow> world" where
  "notify_error (BatchError k) s = batch_error k s"
| "notify_error OnAssetChanged s = s"
| "notify_error OnAssetRemoved s = s"

fun notify_change :: "nat \<Rightarrow> string \<Rightarrow> jsval \<Rightarrow> jsval \<Rightarrow> listener \<Rightarrow> world \<Rightarrow> world" where
  "notify_change a attribute newValue oldValue OnAssetChanged s =
     onAssetChanged a attribute newValue oldValue s"
| "notify_change a attribute newValue oldValue OnAssetRemoved s = s"
| "notify_change a attribute newValue oldValue (BatchError k) s = s"

fun notify_remove :: "nat \<Rightarrow> listener \<Rightarrow> world \<Rightarrow> world" where
  "notify_remove a OnAssetRemoved s = onAssetRemoved a s"
| "notify_remove a OnAssetChanged s = s"
| "notify_remove a (BatchError k) s = s"

text \<open>The listener of \<^verbatim>\<open>add:<id>\<close>, lines 354-361.\<close>

definition on_registry_add :: "nat \<Rightarrow> world \<Rightarrow> world" where
  "on_registry_add a s =
     (let s1 = asset_ready a LateReady s in
      if asset_resource (asset_objs s1 a) = None then registry_load a s1 else s1)"

fun step :: "event \<Rightarrow> world \<Rightarrow> world" where
  "step (AssetLoaded a r) s =
     fold (run_ready_cb a) (load_once (asset_objs s a))
       (s\<lparr>asset_objs := (asset_objs s)
          (a := (asset_objs s a)\<lparr>asset_resource := Some r, load_once := []\<rparr>)\<rparr>)"
| "step (AssetError a) s = fold notify_error (listeners (asset_objs s a) EvError) s"
| "step (AssetChange a attribute newValue oldValue) s =
     fold (notify_change a attribute newValue oldValue) (listeners (asset_objs s a) EvChange) s"
| "step (AssetRemove a) s =
     fold (notify_remove a) (listeners (asset_objs s a) EvRemove)
       (s\<lparr>registry := registry s - {a}\<rparr>)"
| "step (RegistryAdd a) s =
     ((on_registry_add a) ^^ (add_ls s a)) (s\<lparr>registry := insert a (registry s)\<rparr>)"

definition run :: "event list \<Rightarrow> world \<Rightarrow> world" where
  "run evs s = fold step evs s"

text \<open>
  The name that the loop of \<^verbatim>\<open>loadAudioSourceAssets\<close> leaves in its variable
  \<^verbatim>\<open>currentSource\<close>, stated on the list of ids: the name of the first id whose handle is
  in the registry and whose name is not empty; the empty name if handles are present and
  all their names are empty; null if no handle is present.
\<close>

definition present_names :: "nat list \<Rightarrow> world \<Rightarrow> string list" where
  "present_names ids s = map (\<lambda>i. asset_name (asset_objs s i)) (filter (\<lambda>i. i \<in> registry s) ids)"

definition first_present_name :: "nat list \<Rightarrow> world \<Rightarrow> string option" where
  "first_present_name ids s =
     (case filter (\<lambda>n. n \<noteq> []) (present_names ids s) of
        n # ns \<Rightarrow> Some n
      | [] \<Rightarrow> (if present_names ids s = [] then None else Some []))"

section \<open>The plane\<close>

text \<open>
  \<^verbatim>\<open>Plane.intersectsLine\<close>, lines 35-46 of \<^verbatim>\<open>plane.js\<close>. Vectors are objects: the
  plane holds references to its point and normal (the constructor takes references), and
  the optional parameter \<^verbatim>\<open>point\<close> is a reference to a vector that \<^verbatim>\<open>lerp\<close> overwrites.
  The store maps addresses to vectors and to planes; \<open>written\<close> logs the addresses of
  the vectors that were assigned to.

  \<^verbatim>\<open>Vec3\<close> is not among the sources, so its methods \<^verbatim>\<open>dot\<close> and \<^verbatim>\<open>lerp\<close> are
  parameters: \<open>dot u v\<close> is the number \<^verbatim>\<open>u.dot(v)\<close>, and \<open>lerp p u v t\<close> is the content
  of \<^verbatim>\<open>p\<close> after \<^verbatim>\<open>p.lerp(u, v, t)\<close>.

  A division by zero gives NaN or an infinity in JavaScript, and then one of the two
  comparisons fails; the model says so, since \<open>x / 0 = 0\<close> in HOL.
\<close>

record plane =
  point :: nat
  normal :: nat

record 'v pstore =
  vecs :: "nat \<Rightarrow> 'v"
  planes :: "nat \<Rightarrow> plane"
  written :: "nat list"

definition intersectsLine ::
  "('v \<Rightarrow> 'v \<Rightarrow> real) \<Rightarrow> ('v \<Rightarrow> 'v \<Rightarrow> 'v \<Rightarrow> real \<Rightarrow> 'v) \<Rightarrow>
     nat \<Rightarrow> nat \<Rightarrow> nat \<Rightarrow> nat option \<Rightarrow> 'v pstore \<Rightarrow> bool \<times> 'v pstore" where
  "intersectsLine dot lerp this start end' out_point st =
     (let d = - dot (vecs st (normal (planes st this))) (vecs st (point (planes st this)));
          d0 = dot (vecs st (normal (planes st this))) (vecs st start) + d;
          d1 = dot (vecs st (normal (planes st this))) (vecs st end') + d;
          t = d0 / (d0 - d1);
          intersects = (d0 - d1 \<noteq> 0 \<and> t \<ge> 0 \<and> t \<le> 1)
      in
        (case out_point of
           Some p \<Rightarrow>
             (if intersects
              then (intersects,
                    st\<lparr>vecs := (vecs st)(p := lerp (vecs st p) (vecs st start) (vecs st end') t),
                       written := written st @ [p]\<rparr>)
              else (intersects, st))
         | None \<Rightarrow> (intersects, st)))"

section \<open>Concrete states\<close>

text \<open>
  An enabled, initialized component with no channel and an empty object in
  \<^verbatim>\<open>data.sources\<close>. The registry holds asset 1, named a, and asset 2, named b, neither
  loaded yet; every other id is absent.
\<close>

definition asset0 :: "string \<Rightarrow> asset" where
  "asset0 n = \<lparr>asset_name = n, asset_resource = None, listeners = (\<lambda>ev. []), load_once = []\<rparr>"

definition world0 :: world where
  "world0 =
     \<lparr>enabled = True, assets = [], activate = False, volume = 1, pitch = 1, loop = False,
      is3d = False, minDistance = 1, maxDistance = 10000, rollOffFactor = 1,
      distanceModel = ''inverse'', sources = 0, currentSource = None, channel = None,
      entity_enabled = True, entity_position = \<lparr>vx = 0, vy = 0, vz = 0\<rparr>, initialized = True,
      asset_objs = (\<lambda>i. asset0 (if i = 1 then ''a'' else if i = 2 then ''b'' else ''x'')),
      registry = {1, 2}, add_ls = (\<lambda>i. 0), src_heap = (\<lambda>i. Map.empty),
      batches = (\<lambda>i. \<lparr>b_count = 0, b_currentSource = None\<rparr>),
      next_batch = 1, next_channel = 0, calls = [], loads = [], completions = []\<rparr>"

text \<open>
  The same component with a live, playing, non-positional channel on the source a, whose
  resource 5 is in \<^verbatim>\<open>data.sources\<close>.
\<close>

definition chan0 :: audio_channel where
  "chan0 =
     \<lparr>ch_id = 0, ch_3d = False, ch_paused = False, ch_suspended = False, ch_loop = False,
      ch_volume = 1, ch_pitch = 1, ch_minDistance = 1, ch_maxDistance = 10000,
      ch_rollOffFactor = 1, ch_distanceModel = ''inverse''\<rparr>"

definition world_playing :: world where
  "world_playing =
     world0\<lparr>currentSource := Some ''a'', channel := Some chan0, next_channel := 1,
            src_heap := (\<lambda>i. [''a'' \<mapsto> Some 5])\<rparr>"


text \<open>
  A component that resolved asset 1 itself: the call subscribes its handlers, the asset
  loads with resource 5 and the batch finalizes, and \<^verbatim>\<open>play\<close> starts a channel on a.
\<close>

definition world_subscribed :: world where
  "world_subscribed = play (Some ''a'') (run [AssetLoaded 1 5] (loadAudioSourceAssets [1] world0))"

text \<open>
  The same resolve and load, followed by a \<^verbatim>\<open>change\<close> event of asset 1 that carries null
  as the new resource: \<^verbatim>\<open>data.sources\<close> keeps the key a, with the value null.
\<close>

definition world_subscribed_null :: world where
  "world_subscribed_null =
     run [AssetLoaded 1 5, AssetChange 1 ''resource'' None (Some 5)]
       (loadAudioSourceAssets [1] world0)"

text \<open>
  The playing component after a batch over the ids 1 and 2 in which asset 1 failed and
  then asset 2 loaded, and a \<^verbatim>\<open>pause()\<close>: the channel is live and paused, the current
  source is a, and \<^verbatim>\<open>data.sources\<close> holds b only.
\<close>

definition world_stale_current :: world where
  "world_stale_current =
     pause (run [AssetError 1, AssetLoaded 2 7] (loadAudioSourceAssets [1, 2] world_playing))"

text \<open>The playing component, disabled: \<^verbatim>\<open>onDisable\<close> has paused its channel.\<close>

definition world_disabled_paused :: world where
  "world_disabled_paused = onDisable (world_playing\<lparr>enabled := False\<rparr>)"

text \<open>The playing component after \<^verbatim>\<open>pause()\<close>.\<close>

definition world_paused :: world where
  "world_paused = pause world_playing"

text \<open>
  The batch over the ids 1 and 2 on \<open>world0\<close>, settled in two orders: asset 2 loads and
  then asset 1 fails; asset 1 fails and then asset 2 loads.
\<close>

definition world_error_last :: world where
  "world_error_last = run [AssetLoaded 2 7, AssetError 1] (loadAudioSourceAssets [1, 2] world0)"

definition world_error_first :: world where
  "world_error_first = run [AssetError 1, AssetLoaded 2 7] (loadAudioSourceAssets [1, 2] world0)"

text \<open>Two calls in a row that meet the same handle.\<close>

definition world_twice :: world where
  "world_twice = loadAudioSourceAssets [1] (loadAudioSourceAssets [1] world0)"

text \<open>
  For the examples of the plane: the usual dot product and linear interpolation as
  \<open>dot\<close> and \<open>lerp\<close>, and a store with one plane, through the origin (vector 1) with
  normal (0, 0, 1) (vector 2). The segment from vector 3 to vector 4 crosses it at
  (1, 0, 0); vector 5 is free to receive the result.
\<close>

definition dot3 :: "vec3 \<Rightarrow> vec3 \<Rightarrow> real" where
  "dot3 u v = vx u * vx v + vy u * vy v + vz u * vz v"

definition lerp3 :: "vec3 \<Rightarrow> vec3 \<Rightarrow> vec3 \<Rightarrow> real \<Rightarrow> vec3" where
  "lerp3 p u v t =
     \<lparr>vx = vx u + t * (vx v - vx u), vy = vy u + t * (vy v - vy u), vz = vz u + t * (vz v - vz u)\<rparr>"

definition store0 :: "vec3 pstore" where
  "store0 =
     \<lparr>vecs = (\<lambda>i. if i = 1 then \<lparr>vx = 0, vy = 0, vz = 0\<rparr>
                 else if i = 2 then \<lparr>vx = 0, vy = 0, vz = 1\<rparr>
                 else if i = 3 then \<lparr>vx = 0, vy = 0, vz = - 1\<rparr>
                 else if i = 4 then \<lparr>vx = 2, vy = 0, vz = 1\<rparr>
                 else \<lparr>vx = 9, vy = 9, vz = 9\<rparr>),
      planes = (\<lambda>i. \<lparr>point = 1, normal = 2\<rparr>),
      written = []\<rparr>"

section \<open>Auxiliary notions of the proofs\<close>

text \<open>
  \<open>agrees k X s\<close>: the variable \<^verbatim>\<open>currentSource\<close> of batch \<open>k\<close> holds \<open>X\<close>, and every
  completion of batch \<open>k\<close> logged so far committed \<open>X\<close>.
\<close>

definition agrees :: "nat \<Rightarrow> string option \<Rightarrow> world \<Rightarrow> bool" where
  "agrees k X s =
     (b_currentSource (batches s k) = X \<and> (\<forall>e\<in>set (completions s). fst e = k \<longrightarrow> snd e = X))"

text \<open>The effect of one element of the loop on the variable \<^verbatim>\<open>currentSource\<close>.\<close>

definition entry_name :: "world \<Rightarrow> nat option \<times> nat \<Rightarrow> string option \<Rightarrow> string option" where
  "entry_name s e acc = (case fst e of Some a \<Rightarrow> js_or acc (asset_name (asset_objs s a)) | None \<Rightarrow> acc)"

text \<open>
  The callback that lines 329-336 subscribe for an event in batch \<open>k\<close>, and a list of
  listeners after \<^verbatim>\<open>off\<close> and \<^verbatim>\<open>on\<close> of that callback.
\<close>

definition handler_of :: "nat \<Rightarrow> event_kind \<Rightarrow> listener" where
  "handler_of k ev =
     (case ev of EvChange \<Rightarrow> OnAssetChanged | EvRemove \<Rightarrow> OnAssetRemoved | EvError \<Rightarrow> BatchError k)"

definition resubscribed :: "nat \<Rightarrow> event_kind \<Rightarrow> listener list \<Rightarrow> listener list" where
  "resubscribed k ev ls = filter (\<lambda>l. l \<noteq> handler_of k ev) ls @ [handler_of k ev]"

section \<open>Evaluation and frame lemmas\<close>

text \<open>
  The definitions that a concrete run unfolds. With the congruence rule \<open>let_weak_cong\<close>
  the simplifier evaluates the state bound by a \<open>let\<close> before it enters the body.
\<close>

lemmas sim =
  truthy_name_def js_or_def js_key_def cur_sources_def object_prototype_keys_def
  truthy_entry_def new_channel_def playSound_def
  playSound3d_def channel_pause_def channel_unpause_def registry_get_def registry_load_def
  asset_on_def asset_off_def stop_def play_def pause_def unpause_def onAssetChanged_def
  onAssetRemoved_def onEnable_def onDisable_def dec_count_def batch_error_def batch_done_def
  batch_ready_def late_ready_def asset_ready_def subscribe_def note_name_def load_entry_def
  loadAudioSourceAssets_def
  on_registry_add_def run_def asset0_def world0_def Let_def

text \<open>The loop of \<^verbatim>\<open>onEnable\<close> only requests loads.\<close>

lemma load_unresolved_loads:
  "load_unresolved xs s = s\<lparr>loads := loads (load_unresolved xs s)\<rparr>"
proof (induction xs arbitrary: s)
  case Nil
  show ?case by simp
next
  case (Cons x xs)
  define s' where
    "s' = (case (case x of AssetInst i \<Rightarrow> Some i | AssetId i \<Rightarrow> registry_get s i) of
             Some a \<Rightarrow> (if asset_resource (asset_objs s a) = None then registry_load a s else s)
           | None \<Rightarrow> s)"
  have "\<exists>l. s' = s\<lparr>loads := l\<rparr>"
  proof (cases "s' = s")
    case True
    then show ?thesis by (intro exI[of _ "loads s"]) simp
  next
    case False
    then obtain a where "s' = registry_load a s"
      unfolding s'_def by (auto split: option.splits asset_ref.splits if_splits)
    then show ?thesis unfolding registry_load_def by blast
  qed
  then obtain l where l: "s' = s\<lparr>loads := l\<rparr>" by blast
  have step: "load_unresolved (x # xs) s = load_unresolved xs s'"
    by (simp add: s'_def)
  have "load_unresolved xs s' = s'\<lparr>loads := loads (load_unresolved xs s')\<rparr>"
    by (rule Cons.IH)
  also have "\<dots> = s\<lparr>loads := loads (load_unresolved xs s')\<rparr>"
    by (subst l) simp
  finally show ?case
    by (simp only: step)
qed

lemma stop_frame:
  "batches (stop s) = batches s" "completions (stop s) = completions s"
  "asset_objs (stop s) = asset_objs s" "registry (stop s) = registry s"
  by (simp_all add: stop_def split: option.splits)

lemma play_frame:
  "batches (play n s) = batches s" "completions (play n s) = completions s"
  "asset_objs (play n s) = asset_objs s" "registry (play n s) = registry s"
  by (simp_all add: play_def playSound_def playSound3d_def stop_frame Let_def split: option.splits)

lemma pause_frame:
  "batches (pause s) = batches s" "completions (pause s) = completions s"
  "asset_objs (pause s) = asset_objs s" "registry (pause s) = registry s"
  by (simp_all add: pause_def split: option.splits)

lemma unpause_frame:
  "batches (unpause s) = batches s" "completions (unpause s) = completions s"
  "asset_objs (unpause s) = asset_objs s" "registry (unpause s) = registry s"
  by (simp_all add: unpause_def split: option.splits)

lemma load_unresolved_frame:
  "batches (load_unresolved xs s) = batches s" "completions (load_unresolved xs s) = completions s"
  "asset_objs (load_unresolved xs s) = asset_objs s" "registry (load_unresolved xs s) = registry s"
  "initialized (load_unresolved xs s) = initialized s" "activate (load_unresolved xs s) = activate s"
  "channel (load_unresolved xs s) = channel s" "currentSource (load_unresolved xs s) = currentSource s"
  by (subst load_unresolved_loads, simp)+

lemma onEnable_frame:
  "batches (onEnable s) = batches s" "completions (onEnable s) = completions s"
  "asset_objs (onEnable s) = asset_objs s" "registry (onEnable s) = registry s"
  by (simp_all add: onEnable_def load_unresolved_frame play_frame unpause_frame Let_def)

lemma batch_done_frame:
  "batches (batch_done k s) = batches s"
  "completions (batch_done k s) = completions s @ [(k, b_currentSource (batches s k))]"
  "asset_objs (batch_done k s) = asset_objs s" "registry (batch_done k s) = registry s"
  by (simp_all add: batch_done_def onEnable_frame Let_def)

lemma dec_count_frame:
  "b_currentSource (batches (dec_count k s) j) = b_currentSource (batches s j)"
  "b_count (batches (dec_count k s) j) = (if j = k then b_count (batches s k) - 1 else b_count (batches s j))"
  "completions (dec_count k s) = completions s"
  "asset_objs (dec_count k s) = asset_objs s" "registry (dec_count k s) = registry s"
  by (simp_all add: dec_count_def)

lemma batch_ready_frame:
  "b_currentSource (batches (batch_ready k a s) j) = b_currentSource (batches s j)"
  "b_count (batches (batch_ready k a s) j) = (if j = k then b_count (batches s k) - 1 else b_count (batches s j))"
  "completions (batch_ready k a s) =
     completions s @ (if b_count (batches s k) = 1 then [(k, b_currentSource (batches s k))] else [])"
  "asset_objs (batch_ready k a s) = asset_objs s" "registry (batch_ready k a s) = registry s"
  by (simp_all add: batch_ready_def dec_count_frame batch_done_frame Let_def)

lemma late_ready_frame:
  "batches (late_ready a s) = batches s" "completions (late_ready a s) = completions s"
  "asset_objs (late_ready a s) = asset_objs s" "registry (late_ready a s) = registry s"
  by (simp_all add: late_ready_def)

lemma registry_load_frame:
  "batches (registry_load a s) = batches s" "completions (registry_load a s) = completions s"
  "asset_objs (registry_load a s) = asset_objs s" "registry (registry_load a s) = registry s"
  by (simp_all add: registry_load_def)

lemma onAssetChanged_frame:
  "batches (onAssetChanged a attribute nv ov s) = batches s"
  "completions (onAssetChanged a attribute nv ov s) = completions s"
  "asset_objs (onAssetChanged a attribute nv ov s) = asset_objs s"
  "registry (onAssetChanged a attribute nv ov s) = registry s"
  by (simp_all add: onAssetChanged_def play_frame pause_frame Let_def split: option.splits)

lemma asset_off_frame:
  "batches (asset_off ev l a s) = batches s" "completions (asset_off ev l a s) = completions s"
  "registry (asset_off ev l a s) = registry s"
  "asset_name (asset_objs (asset_off ev l a s) b) = asset_name (asset_objs s b)"
  "asset_resource (asset_objs (asset_off ev l a s) b) = asset_resource (asset_objs s b)"
  "load_once (asset_objs (asset_off ev l a s) b) = load_once (asset_objs s b)"
  by (simp_all add: asset_off_def)

lemma asset_on_frame:
  "batches (asset_on ev l a s) = batches s" "completions (asset_on ev l a s) = completions s"
  "registry (asset_on ev l a s) = registry s"
  "asset_name (asset_objs (asset_on ev l a s) b) = asset_name (asset_objs s b)"
  "asset_resource (asset_objs (asset_on ev l a s) b) = asset_resource (asset_objs s b)"
  "load_once (asset_objs (asset_on ev l a s) b) = load_once (asset_objs s b)"
  by (simp_all add: asset_on_def)

lemma subscribe_frame:
  "batches (subscribe k a s) = batches s" "completions (subscribe k a s) = completions s"
  "registry (subscribe k a s) = registry s"
  "asset_name (asset_objs (subscribe k a s) b) = asset_name (asset_objs s b)"
  "asset_resource (asset_objs (subscribe k a s) b) = asset_resource (asset_objs s b)"
  "load_once (asset_objs (subscribe k a s) b) = load_once (asset_objs s b)"
  by (simp_all add: subscribe_def asset_on_frame asset_off_frame)

lemma onAssetRemoved_frame:
  "batches (onAssetRemoved a s) = batches s" "completions (onAssetRemoved a s) = completions s"
  "registry (onAssetRemoved a s) = registry s"
  "asset_name (asset_objs (onAssetRemoved a s) b) = asset_name (asset_objs s b)"
  by (simp_all add: onAssetRemoved_def asset_off_frame stop_frame Let_def split: option.splits)

lemma note_name_frame:
  "b_currentSource (batches (note_name k a s) j) =
     (if j = k then js_or (b_currentSource (batches s k)) (asset_name (asset_objs s a))
      else b_currentSource (batches s j))"
  "b_count (batches (note_name k a s) j) = b_count (batches s j)"
  "completions (note_name k a s) = completions s"
  "asset_objs (note_name k a s) = asset_objs s" "registry (note_name k a s) = registry s"
  by (simp_all add: note_name_def)

lemma asset_ready_frame:
  "registry (asset_ready a cb s) = registry s"
  "asset_name (asset_objs (asset_ready a cb s) b) = asset_name (asset_objs s b)"
  "asset_resource (asset_objs (asset_ready a cb s) b) = asset_resource (asset_objs s b)"
  by (cases cb; simp add: asset_ready_def batch_ready_frame late_ready_frame split: option.splits)+

lemma agrees_frame:
  "batches t = batches s \<Longrightarrow> completions t = completions s \<Longrightarrow> agrees k X s \<Longrightarrow> agrees k X t"
  by (simp add: agrees_def)

lemma agrees_dec_count: "agrees k X s \<Longrightarrow> agrees k X (dec_count j s)"
  by (simp add: agrees_def dec_count_frame)

lemma agrees_batch_done: "agrees k X s \<Longrightarrow> agrees k X (batch_done j s)"
  by (auto simp: agrees_def batch_done_frame)

lemma agrees_batch_ready: "agrees k X s \<Longrightarrow> agrees k X (batch_ready j a s)"
  by (auto simp: agrees_def batch_ready_frame)

lemma agrees_run_ready_cb: "agrees k X s \<Longrightarrow> agrees k X (run_ready_cb a cb s)"
  by (cases cb) (auto simp: agrees_batch_ready late_ready_frame intro: agrees_frame)

lemma agrees_asset_ready: "agrees k X s \<Longrightarrow> agrees k X (asset_ready a cb s)"
  by (auto simp: asset_ready_def agrees_run_ready_cb split: option.splits intro: agrees_frame)

lemma fold_preserves:
  assumes "\<And>x t. P t \<Longrightarrow> P (f x t)" and "P s"
  shows "P (fold f xs s)"
  using assms(2) by (induction xs arbitrary: s) (simp_all add: assms(1))

lemma funpow_preserves:
  assumes "\<And>t. P t \<Longrightarrow> P (f t)" and "P s"
  shows "P ((f ^^ n) s)"
  by (induction n) (simp_all add: assms)

lemma agrees_notify_error: "agrees k X s \<Longrightarrow> agrees k X (notify_error l s)"
  by (cases l) (simp_all add: batch_error_def agrees_dec_count)

lemma agrees_notify_change: "agrees k X s \<Longrightarrow> agrees k X (notify_change a attribute nv ov l s)"
  by (cases l) (auto simp: onAssetChanged_frame intro: agrees_frame)

lemma agrees_notify_remove: "agrees k X s \<Longrightarrow> agrees k X (notify_remove a l s)"
  by (cases l) (auto simp: onAssetRemoved_frame intro: agrees_frame)

lemma agrees_on_registry_add: "agrees k X s \<Longrightarrow> agrees k X (on_registry_add a s)"
  by (auto simp: on_registry_add_def Let_def agrees_asset_ready registry_load_frame intro: agrees_frame)

lemma agrees_step: "agrees k X s \<Longrightarrow> agrees k X (step e s)"
proof (cases e)
  case (AssetLoaded a r)
  assume "agrees k X s"
  then have "agrees k X (s\<lparr>asset_objs := (asset_objs s)
          (a := (asset_objs s a)\<lparr>asset_resource := Some r, load_once := []\<rparr>)\<rparr>)"
    by (simp add: agrees_def)
  then show ?thesis
    unfolding AssetLoaded step.simps by (rule fold_preserves [rotated]) (rule agrees_run_ready_cb)
next
  case (AssetError a)
  assume "agrees k X s"
  then show ?thesis
    unfolding AssetError step.simps by (rule fold_preserves [rotated]) (rule agrees_notify_error)
next
  case (AssetChange a attribute nv ov)
  assume "agrees k X s"
  then show ?thesis
    unfolding AssetChange step.simps by (rule fold_preserves [rotated]) (rule agrees_notify_change)
next
  case (AssetRemove a)
  assume "agrees k X s"
  then have "agrees k X (s\<lparr>registry := registry s - {a}\<rparr>)"
    by (simp add: agrees_def)
  then show ?thesis
    unfolding AssetRemove step.simps by (rule fold_preserves [rotated]) (rule agrees_notify_remove)
next
  case (RegistryAdd a)
  assume "agrees k X s"
  then have "agrees k X (s\<lparr>registry := insert a (registry s)\<rparr>)"
    by (simp add: agrees_def)
  then show ?thesis
    unfolding RegistryAdd step.simps by (rule funpow_preserves [rotated]) (rule agrees_on_registry_add)
qed

lemma agrees_run:
  assumes "agrees k X s"
  shows "agrees k X (run evs s)"
  using assms unfolding run_def by (rule fold_preserves [rotated]) (rule agrees_step)

lemma fold_js_or:
  "fold (\<lambda>n acc. js_or acc n) ns acc =
     (if truthy_name acc then acc
      else (case filter (\<lambda>n. n \<noteq> []) ns of
              n # ms \<Rightarrow> Some n
            | [] \<Rightarrow> (if ns = [] then acc else Some [])))"
proof (induction ns arbitrary: acc)
  case Nil
  show ?case by simp
next
  case (Cons n ns)
  show ?case
  proof (cases "truthy_name acc")
    case True
    then have "js_or acc n = acc" by (simp add: js_or_def)
    then show ?thesis by (simp add: Cons.IH True)
  next
    case False
    then have step: "js_or acc n = Some n" by (simp add: js_or_def)
    show ?thesis
    proof (cases "n = []")
      case True
      have nt: "\<not> truthy_name (Some [])" by (simp add: truthy_name_def)
      have s2: "js_or acc [] = Some []" using step True by simp
      show ?thesis
        using False by (simp add: True s2 nt Cons.IH split: list.splits)
    next
      case False
      then have "truthy_name (Some n)" by (simp add: truthy_name_def)
      then show ?thesis
        using \<open>\<not> truthy_name acc\<close> False by (simp add: step Cons.IH)
    qed
  qed
qed

lemma fold_entry_name:
  "fold (entry_name s) (zip (map (registry_get s) ids) ids) acc =
     fold (\<lambda>n acc. js_or acc n) (present_names ids s) acc"
  by (induction ids arbitrary: acc) (simp_all add: entry_name_def registry_get_def present_names_def)

lemma entry_name_cong:
  "(\<And>a. asset_name (asset_objs t a) = asset_name (asset_objs s a)) \<Longrightarrow> entry_name t = entry_name s"
  by (simp add: entry_name_def fun_eq_iff split: option.splits)

lemma load_entry_names:
  "asset_name (asset_objs (load_entry k e s) b) = asset_name (asset_objs s b)"
  by (simp add: load_entry_def asset_ready_frame subscribe_frame note_name_frame
      registry_load_frame dec_count_frame batch_done_frame Let_def split: option.splits)

lemma load_entry_current:
  "b_currentSource (batches (load_entry k e s) k) = entry_name s e (b_currentSource (batches s k))"
  by (cases "fst e"; cases "asset_resource (asset_objs s (the (fst e)))")
     (simp_all add: load_entry_def entry_name_def asset_ready_def subscribe_frame
        note_name_frame registry_load_frame dec_count_frame batch_done_frame batch_ready_frame
        Let_def)

lemma load_entry_progress:
  "(completions (load_entry k e s) = completions s \<and>
      b_count (batches s k) - 1 \<le> b_count (batches (load_entry k e s) k)) \<or>
   (b_count (batches s k) = 1 \<and>
      completions (load_entry k e s) =
        completions s @ [(k, b_currentSource (batches (load_entry k e s) k))])"
  by (cases "fst e"; cases "asset_resource (asset_objs s (the (fst e)))")
     (simp_all add: load_entry_def asset_ready_def subscribe_frame note_name_frame
        registry_load_frame dec_count_frame batch_done_frame batch_ready_frame Let_def)

lemma load_each_agrees:
  assumes "\<forall>e\<in>set (completions s). fst e \<noteq> k"
    and "int (length es) \<le> b_count (batches s k)"
  shows "agrees k (fold (entry_name s) es (b_currentSource (batches s k))) (load_each k es s)"
  using assms
proof (induction es arbitrary: s)
  case Nil
  then show ?case by (auto simp: agrees_def)
next
  case (Cons e es)
  let ?t = "load_entry k e s"
  have cur: "b_currentSource (batches ?t k) = entry_name s e (b_currentSource (batches s k))"
    by (rule load_entry_current)
  have names: "entry_name ?t = entry_name s"
    by (rule entry_name_cong) (simp add: load_entry_names)
  from load_entry_progress [of k e s] show ?case
  proof
    assume quiet: "completions ?t = completions s \<and> b_count (batches s k) - 1 \<le> b_count (batches ?t k)"
    then have "\<forall>x\<in>set (completions ?t). fst x \<noteq> k"
      using Cons.prems(1) by simp
    moreover have "int (length es) \<le> b_count (batches ?t k)"
      using quiet Cons.prems(2) by simp
    ultimately have "agrees k (fold (entry_name ?t) es (b_currentSource (batches ?t k))) (load_each k es ?t)"
      by (rule Cons.IH)
    then show ?thesis
      by (simp add: names cur)
  next
    assume fin: "b_count (batches s k) = 1 \<and>
      completions ?t = completions s @ [(k, b_currentSource (batches ?t k))]"
    then have "es = []"
      using Cons.prems(2) by simp
    moreover have "agrees k (b_currentSource (batches ?t k)) ?t"
      using fin Cons.prems(1) by (auto simp: agrees_def)
    ultimately show ?thesis
      by (simp add: cur)
  qed
qed

lemma batch_done_currentSource:
  "currentSource (batch_done k t) = b_currentSource (batches t k)"
proof -
  have p: "\<And>s. currentSource (play (currentSource s) s) = currentSource s"
    by (simp add: play_def stop_def playSound_def playSound3d_def Let_def split: option.splits)
  have u: "\<And>s. currentSource (unpause s) = currentSource s"
    by (simp add: unpause_def split: option.splits)
  have e: "\<And>s. currentSource (onEnable s) = currentSource s"
  proof -
    fix s
    obtain l where l: "load_unresolved (assets s) s = s\<lparr>loads := l\<rparr>"
      using load_unresolved_loads by blast
    have "currentSource (play (currentSource (s\<lparr>loads := l\<rparr>)) (s\<lparr>loads := l\<rparr>)) = currentSource (s\<lparr>loads := l\<rparr>)"
      by (rule p)
    then show "currentSource (onEnable s) = currentSource s"
      by (simp add: onEnable_def l Let_def u)
  qed
  show ?thesis
    by (simp add: batch_done_def Let_def e)
qed

lemma resubscribed_idem: "resubscribed k ev (resubscribed k ev ls) = resubscribed k ev ls"
  by (simp add: resubscribed_def)

lemma subscribe_listeners:
  "listeners (asset_objs (subscribe k a s) b) ev =
     (if b = a then resubscribed k ev (listeners (asset_objs s a) ev)
      else listeners (asset_objs s b) ev)"
  by (cases ev) (simp_all add: subscribe_def asset_on_def asset_off_def resubscribed_def handler_of_def)

lemma asset_ready_listeners:
  "listeners (asset_objs (asset_ready a cb s) b) = listeners (asset_objs s b)"
  by (cases cb; simp add: asset_ready_def batch_ready_frame late_ready_frame split: option.splits)

lemma load_entry_listeners:
  "listeners (asset_objs (load_entry k e s) b) ev =
     (if fst e = Some b then resubscribed k ev (listeners (asset_objs s b) ev)
      else listeners (asset_objs s b) ev)"
  by (cases "fst e")
     (simp_all add: load_entry_def Let_def asset_ready_listeners subscribe_listeners
        note_name_frame registry_load_frame dec_count_frame batch_done_frame)

lemma load_each_listeners:
  "listeners (asset_objs (load_each k es s) b) ev =
     (if Some b \<in> fst ` set es then resubscribed k ev (listeners (asset_objs s b) ev)
      else listeners (asset_objs s b) ev)"
proof (induction es arbitrary: s)
  case Nil
  show ?case by simp
next
  case (Cons e es)
  show ?case
    by (simp add: Cons.IH load_entry_listeners resubscribed_idem)
qed

lemma present_in_zip:
  "Some a \<in> fst ` set (zip (map (registry_get s) ids) ids) \<longleftrightarrow> a \<in> set ids \<and> a \<in> registry s"
  by (induction ids) (auto simp: registry_get_def)

lemma notify_error_quiet:
  "completions (notify_error l t) = completions t \<and> sources (notify_error l t) = sources t \<and>
   currentSource (notify_error l t) = currentSource t \<and> src_heap (notify_error l t) = src_heap t \<and>
   channel (notify_error l t) = channel t \<and> calls (notify_error l t) = calls t"
  by (cases l) (simp_all add: batch_error_def dec_count_def)

text \<open>The state \<open>world_stale_current\<close>, evaluated.\<close>

lemma world_stale_current_facts:
  "initialized world_stale_current"
  "currentSource world_stale_current = Some ''a''"
  "channel world_stale_current = Some (chan0\<lparr>ch_paused := True\<rparr>)"
  "enabled world_stale_current" "entity_enabled world_stale_current"
  "cur_sources world_stale_current = [''b'' \<mapsto> Some 7]"
  "calls world_stale_current = [ChPause 0]"
  "is3d world_stale_current = False"
  by (simp_all add: world_stale_current_def world_playing_def chan0_def sim cong: let_weak_cong)

text \<open>
  A fold over a list that holds \<open>h\<close>: from \<open>P\<close>, the step of \<open>h\<close> leads to \<open>Q\<close>, the
  other steps keep \<open>P\<close>, and every step keeps \<open>Q\<close>.
\<close>

lemma fold_reaches:
  assumes keep: "\<And>x t. Q t \<Longrightarrow> Q (f x t)"
    and skip: "\<And>x t. P t \<Longrightarrow> x \<noteq> h \<Longrightarrow> P (f x t)"
    and hit: "\<And>t. P t \<Longrightarrow> Q (f h t)"
    and "P s" and "h \<in> set xs"
  shows "Q (fold f xs s)"
  using assms(4,5)
proof (induction xs arbitrary: s)
  case Nil
  then show ?case by simp
next
  case (Cons x xs)
  show ?case
  proof (cases "x = h")
    case True
    then have "Q (f x s)" using Cons.prems(1) hit by simp
    then have "Q (fold f xs (f x s))" by (rule fold_preserves [rotated]) (rule keep)
    then show ?thesis by simp
  next
    case False
    then have "P (f x s)" using Cons.prems(1) skip by simp
    moreover have "h \<in> set xs" using Cons.prems(2) False by simp
    ultimately have "Q (fold f xs (f x s))" by (rule Cons.IH)
    then show ?thesis by simp
  qed
qed

text \<open>The state \<open>world_subscribed\<close>, evaluated.\<close>

lemma world_subscribed_facts:
  "listeners (asset_objs world_subscribed 1) EvRemove = [OnAssetRemoved]"
  "asset_name (asset_objs world_subscribed 1) = ''a''"
  "cur_sources world_subscribed ''a'' = Some (Some 5)"
  "currentSource world_subscribed = Some ''a''"
  "map_option ch_id (channel world_subscribed) = Some 0"
  "calls world_subscribed = [PlaySound (Sound 5)]"
  by (simp_all add: world_subscribed_def sim cong: let_weak_cong)

section \<open>Claims\<close>

text \<open>
  Claim C1 fails on the code when the failing asset settles last. An \<^verbatim>\<open>error\<close> event
  only decrements counts: whatever the state, it runs no completion and assigns neither
  \<^verbatim>\<open>data.sources\<close> nor \<^verbatim>\<open>data.currentSource\<close>. So a batch whose last settle is an
  error reaches the count zero and is never finalized.
\<close>

theorem C1_error_event_never_finalizes:
  "completions (step (AssetError a) s) = completions s \<and>
   sources (step (AssetError a) s) = sources s \<and>
   currentSource (step (AssetError a) s) = currentSource s \<and>
   src_heap (step (AssetError a) s) = src_heap s \<and>
   channel (step (AssetError a) s) = channel s \<and> calls (step (AssetError a) s) = calls s"
proof -
  let ?P = "\<lambda>t. completions t = completions s \<and> sources t = sources s \<and>
     currentSource t = currentSource s \<and> src_heap t = src_heap s \<and>
     channel t = channel s \<and> calls t = calls s"
  have "?P (fold notify_error (listeners (asset_objs s a) EvError) s)"
    by (rule fold_preserves [where P = ?P]) (simp_all add: notify_error_quiet)
  then show ?thesis by simp
qed

text \<open>
  The failing input of claim C1. Both handles are present; asset 2 becomes ready, then
  asset 1 reports an error. The count is zero, \<^verbatim>\<open>_done\<close> has not run, the entry
  collected for b is still in the batch's own object, and \<^verbatim>\<open>data.sources\<close> and
  \<^verbatim>\<open>data.currentSource\<close> are as before the call.
\<close>

theorem C1_error_last_never_finalizes:
  "b_count (batches world_error_last 1) = 0 \<and> completions world_error_last = [] \<and>
   src_heap world_error_last 1 = [''b'' \<mapsto> Some 7] \<and>
   sources world_error_last = 0 \<and> cur_sources world_error_last = Map.empty \<and>
   currentSource world_error_last = None"
proof -
  define t where "t = step (AssetLoaded 2 7) (loadAudioSourceAssets [1, 2] world0)"
  have w: "world_error_last = step (AssetError 1) t"
    by (simp add: world_error_last_def run_def t_def)
  have before: "completions t = []" "sources t = 0" "currentSource t = None"
    "src_heap t 1 = [''b'' \<mapsto> Some 7]" "src_heap t 0 = Map.empty"
    by (simp_all add: t_def sim cong: let_weak_cong)
  have count: "b_count (batches world_error_last 1) = 0"
    by (simp add: world_error_last_def sim cong: let_weak_cong)
  from C1_error_event_never_finalizes [of 1 t] have
    "completions world_error_last = [] \<and> sources world_error_last = 0 \<and>
     currentSource world_error_last = None \<and> src_heap world_error_last = src_heap t"
    unfolding w by (simp only: before)
  then show ?thesis
    using count before by (simp add: cur_sources_def del: One_nat_def)
qed

text \<open>
  Claim C2, as stated, fails: for the ids of a and b, where a fails and then b loads, the
  batch finalizes with b alone in \<^verbatim>\<open>data.sources\<close>, and \<^verbatim>\<open>currentSource\<close> is a, the
  first entry, not b, the first that resolved.
\<close>

theorem C2_counterexample:
  "completions world_error_first = [(1, Some ''a'')] \<and>
   cur_sources world_error_first = [''b'' \<mapsto> Some 7] \<and>
   currentSource world_error_first = Some ''a'' \<and>
   currentSource world_error_first \<noteq> Some ''b''"
  by (simp add: world_error_first_def sim cong: let_weak_cong)

text \<open>
  Claim C2, amended. Whenever a batch finalizes, after any events, the value it commits
  to \<^verbatim>\<open>currentSource\<close> is the name of the first id in input order whose handle is in the
  registry and has a non-empty name, whether that asset resolved or not (the empty name
  if every present handle has an empty name, null if no handle is present). The log of
  completions records, for each run of \<^verbatim>\<open>_done\<close>, the value of \<^verbatim>\<open>currentSource\<close> when
  \<^verbatim>\<open>_done\<close> returns. The hypothesis says that the batch is new: nothing is logged yet
  under its number.
\<close>

theorem C2_committed_current_source:
  assumes "\<forall>e\<in>set (completions s). fst e \<noteq> next_batch s"
  shows "(\<forall>e\<in>set (completions (run evs (loadAudioSourceAssets ids s))).
            fst e = next_batch s \<longrightarrow> snd e = first_present_name ids s) \<and>
         (\<forall>k t. completions (batch_done k t) = completions t @ [(k, currentSource (batch_done k t))])"
proof -
  let ?k = "next_batch s"
  let ?s0 = "s\<lparr>next_batch := Suc ?k, src_heap := (src_heap s)(?k := Map.empty),
               batches := (batches s)(?k := \<lparr>b_count = int (length ids), b_currentSource = None\<rparr>)\<rparr>"
  let ?es = "zip (map (registry_get s) ids) ids"
  have "agrees ?k (fold (entry_name ?s0) ?es (b_currentSource (batches ?s0 ?k))) (load_each ?k ?es ?s0)"
    by (rule load_each_agrees) (use assms in simp_all)
  moreover have "entry_name ?s0 = entry_name s"
    by (rule entry_name_cong) simp
  moreover have "fold (entry_name s) ?es None = first_present_name ids s"
    by (simp add: fold_entry_name fold_js_or first_present_name_def truthy_name_def)
  ultimately have "agrees ?k (first_present_name ids s) (loadAudioSourceAssets ids s)"
    by (simp add: loadAudioSourceAssets_def Let_def)
  then have "agrees ?k (first_present_name ids s) (run evs (loadAudioSourceAssets ids s))"
    by (rule agrees_run)
  then show ?thesis
    by (simp add: agrees_def batch_done_currentSource batch_done_frame)
qed

theorem C2_witness:
  "completions world0 = [] \<and>
   completions (run [AssetError 1, AssetLoaded 2 7] (loadAudioSourceAssets [1, 2] world0)) =
     [(1, Some ''a'')] \<and>
   next_batch world0 = 1 \<and> first_present_name [1, 2] world0 = Some ''a''"
proof -
  have h: "\<forall>e\<in>set (completions world0). fst e \<noteq> next_batch world0"
    by (simp add: world0_def)
  have c: "completions (run [AssetError 1, AssetLoaded 2 7] (loadAudioSourceAssets [1, 2] world0)) =
     [(1, Some ''a'')]"
    by (simp add: sim cong: let_weak_cong)
  have n: "next_batch world0 = 1" "completions world0 = []"
    by (simp_all add: world0_def)
  from C2_committed_current_source [OF h, of "[AssetError 1, AssetLoaded 2 7]" "[1, 2]"]
  have "first_present_name [1, 2] world0 = Some ''a''"
    by (simp add: c n del: One_nat_def)
  then show ?thesis
    by (simp add: c n del: One_nat_def)
qed

text \<open>
  Claim C3, as stated, fails: with an empty list the loop body never runs, and
  \<^verbatim>\<open>_done\<close> is called from the loop body only. Nothing is assigned to
  \<^verbatim>\<open>data.sources\<close> or \<^verbatim>\<open>data.currentSource\<close>, and the completion step does not run.
\<close>

theorem C3_counterexample:
  "cur_sources (loadAudioSourceAssets [] world_playing) ''a'' = Some (Some 5) \<and>
   currentSource (loadAudioSourceAssets [] world_playing) = Some ''a'' \<and>
   completions (loadAudioSourceAssets [] world_playing) = []"
  by (simp add: loadAudioSourceAssets_def cur_sources_def Let_def world_playing_def world0_def)

text \<open>
  Claim C3, amended. \<^verbatim>\<open>loadAudioSourceAssets([])\<close> has no effect beyond creating its
  closures: \<^verbatim>\<open>data.sources\<close> (the object and its content), \<^verbatim>\<open>data.currentSource\<close>,
  the channel, the subscriptions and the logs of completions, backend calls and load
  requests are unchanged. The hypothesis says that the new object is new: its address is
  not the one \<^verbatim>\<open>data.sources\<close> refers to.
\<close>

theorem C3_empty_ids_do_nothing:
  assumes "sources s \<noteq> next_batch s"
  shows "cur_sources (loadAudioSourceAssets [] s) = cur_sources s \<and>
         sources (loadAudioSourceAssets [] s) = sources s \<and>
         currentSource (loadAudioSourceAssets [] s) = currentSource s \<and>
         completions (loadAudioSourceAssets [] s) = completions s \<and>
         channel (loadAudioSourceAssets [] s) = channel s \<and>
         calls (loadAudioSourceAssets [] s) = calls s \<and>
         loads (loadAudioSourceAssets [] s) = loads s \<and>
         asset_objs (loadAudioSourceAssets [] s) = asset_objs s \<and>
         add_ls (loadAudioSourceAssets [] s) = add_ls s"
  using assms by (simp add: loadAudioSourceAssets_def cur_sources_def Let_def)

theorem C3_witness:
  "sources world_playing \<noteq> next_batch world_playing \<and>
   cur_sources (loadAudioSourceAssets [] world_playing) = cur_sources world_playing \<and>
   currentSource (loadAudioSourceAssets [] world_playing) = Some ''a'' \<and>
   completions (loadAudioSourceAssets [] world_playing) = [] \<and>
   calls (loadAudioSourceAssets [] world_playing) = []"
proof -
  have h: "sources world_playing \<noteq> next_batch world_playing"
    by (simp add: world_playing_def world0_def)
  have c: "currentSource world_playing = Some ''a''" "completions world_playing = []"
    "calls world_playing = []"
    by (simp_all add: world_playing_def world0_def)
  from C3_empty_ids_do_nothing [OF h] show ?thesis
    using h by (simp add: c)
qed

text \<open>
  Claim C4 fails on the code for the event \<^verbatim>\<open>error\<close>. The subscriptions of a handle after
  one call, for every state and id list: if the call meets the handle, the callback of
  the call is removed and appended, and every other listener stays. For \<^verbatim>\<open>change\<close> and
  \<^verbatim>\<open>remove\<close> the callback is the component's method, the same in every call, so one
  listener remains. For \<^verbatim>\<open>error\<close> it is the closure \<^verbatim>\<open>_error\<close> of this call, which
  no earlier call subscribed: the closures of the earlier calls stay, and each call adds
  one listener.
\<close>

theorem C4_subscriptions_after_resolve:
  "listeners (asset_objs (loadAudioSourceAssets ids s) a) ev =
     (if a \<in> set ids \<and> a \<in> registry s
      then filter (\<lambda>l. l \<noteq> handler_of (next_batch s) ev) (listeners (asset_objs s a) ev)
             @ [handler_of (next_batch s) ev]
      else listeners (asset_objs s a) ev)"
  by (simp add: loadAudioSourceAssets_def Let_def load_each_listeners present_in_zip resubscribed_def)

text \<open>
  The failing input of claim C4. After two calls that meet asset 1, the asset has one
  listener for \<^verbatim>\<open>change\<close>, one for \<^verbatim>\<open>remove\<close> and two for \<^verbatim>\<open>error\<close>; one
  \<^verbatim>\<open>error\<close> event then decrements the counts of both batches, while one \<^verbatim>\<open>change\<close>
  event runs \<^verbatim>\<open>onAssetChanged\<close> once.
\<close>

theorem C4_error_listeners_accumulate:
  "listeners (asset_objs world_twice 1) EvChange = [OnAssetChanged] \<and>
   listeners (asset_objs world_twice 1) EvRemove = [OnAssetRemoved] \<and>
   listeners (asset_objs world_twice 1) EvError = [BatchError 1, BatchError 2] \<and>
   b_count (batches world_twice 1) = 1 \<and> b_count (batches world_twice 2) = 1 \<and>
   b_count (batches (step (AssetError 1) world_twice) 1) = 0 \<and>
   b_count (batches (step (AssetError 1) world_twice) 2) = 0 \<and>
   step (AssetChange 1 ''resource'' (Some 9) None) world_twice =
     onAssetChanged 1 ''resource'' (Some 9) None world_twice"
proof -
  let ?s1 = "loadAudioSourceAssets [1] world0"
  have w0: "next_batch world0 = 1" "1 \<in> registry world0"
    "listeners (asset_objs world0 1) = (\<lambda>ev. [])"
    by (simp_all add: world0_def asset0_def)
  have s1: "next_batch ?s1 = 2" "1 \<in> registry ?s1"
    by (simp_all add: sim cong: let_weak_cong)
  have l1: "listeners (asset_objs ?s1 1) ev = [handler_of 1 ev]" for ev
    using C4_subscriptions_after_resolve [of "[1]" world0 1 ev] by (simp add: w0 del: One_nat_def)
  have l2: "listeners (asset_objs world_twice 1) ev =
      filter (\<lambda>l. l \<noteq> handler_of 2 ev) [handler_of 1 ev] @ [handler_of 2 ev]" for ev
    using C4_subscriptions_after_resolve [of "[1]" ?s1 1 ev]
    by (simp add: world_twice_def s1 l1 del: One_nat_def)
  have counts: "b_count (batches world_twice 1) = 1 \<and> b_count (batches world_twice 2) = 1 \<and>
      b_count (batches (step (AssetError 1) world_twice) 1) = 0 \<and>
      b_count (batches (step (AssetError 1) world_twice) 2) = 0"
    by (simp add: world_twice_def sim cong: let_weak_cong)
  have "step (AssetChange 1 ''resource'' (Some 9) None) world_twice =
      onAssetChanged 1 ''resource'' (Some 9) None world_twice"
    using l2 [of EvChange] by (simp add: handler_of_def del: One_nat_def)
  then show ?thesis
    using counts by (simp add: l2 handler_of_def del: One_nat_def)
qed

text \<open>
  Claim C5, as stated, fails in two ways. First, the current source may have no entry in
  \<^verbatim>\<open>data.sources\<close> (here after a batch whose first asset failed): then \<^verbatim>\<open>play\<close> stops
  the channel and creates none, and no channel is live after the swaps. Second, on a
  disabled component \<^verbatim>\<open>play\<close> is a no-op, so the channel is not rebuilt: it is the same
  channel, and the backend sees no call.
\<close>

theorem C5_counterexample:
  "initialized world_stale_current \<and> truthy_name (currentSource world_stale_current) \<and>
   channel world_stale_current = Some (chan0\<lparr>ch_paused := True\<rparr>) \<and>
   channel (setPositional True world_stale_current) = None \<and>
   channel (setPositional False (setPositional True world_stale_current)) = None \<and>
   initialized world_disabled_paused \<and> truthy_name (currentSource world_disabled_paused) \<and>
   channel world_disabled_paused = Some (chan0\<lparr>ch_paused := True\<rparr>) \<and>
   channel (setPositional True world_disabled_paused) = Some (chan0\<lparr>ch_paused := True\<rparr>) \<and>
   calls (setPositional True world_disabled_paused) = calls world_disabled_paused"
proof -
  have a: "channel (setPositional True world_stale_current) = None"
    "currentSource (setPositional True world_stale_current) = Some ''a''"
    "initialized (setPositional True world_stale_current)"
    "is3d (setPositional True world_stale_current)"
    "enabled (setPositional True world_stale_current)"
    "entity_enabled (setPositional True world_stale_current)"
    "cur_sources (setPositional True world_stale_current) = [''b'' \<mapsto> Some 7]"
    using world_stale_current_facts
    by (simp_all add: setPositional_def onSet3d_def play_def stop_def truthy_name_def js_key_def
        cur_sources_def truthy_entry_def object_prototype_keys_def Let_def)
  have b: "channel (setPositional False (setPositional True world_stale_current)) = None"
    using a
    by (simp add: setPositional_def onSet3d_def play_def stop_def truthy_name_def js_key_def
        cur_sources_def truthy_entry_def object_prototype_keys_def Let_def)
  have d: "initialized world_disabled_paused" "currentSource world_disabled_paused = Some ''a''"
    "channel world_disabled_paused = Some (chan0\<lparr>ch_paused := True\<rparr>)"
    "\<not> enabled world_disabled_paused" "\<not> is3d world_disabled_paused"
    by (simp_all add: world_disabled_paused_def world_playing_def chan0_def sim)
  have e: "channel (setPositional True world_disabled_paused) = Some (chan0\<lparr>ch_paused := True\<rparr>)"
    "calls (setPositional True world_disabled_paused) = calls world_disabled_paused"
    using d
    by (simp_all add: setPositional_def onSet3d_def play_def truthy_name_def Let_def chan0_def)
  show ?thesis
    using world_stale_current_facts a b d e by (simp add: truthy_name_def)
qed

text \<open>
  Claim C5, amended. If the system is initialized, the current source is a non-empty name
  with a resource in \<^verbatim>\<open>data.sources\<close>, and the live channel is paused, then after
  \<^verbatim>\<open>setPositional(true)\<close> followed by \<^verbatim>\<open>setPositional(false)\<close> a channel is live, it is
  paused, and its suspended flag is the one of the channel before. If moreover the
  component and its entity are enabled and the positional flag was false, each call
  rebuilds the channel: the backend sees stop, \<^verbatim>\<open>playSound3d\<close>, stop, \<^verbatim>\<open>playSound\<close>, and
  the final channel is a new, non-positional one.
\<close>

theorem C5_positional_swap_keeps_flags:
  assumes "initialized s" and "currentSource s = Some n" and "n \<noteq> []"
    and "cur_sources s n = Some (Some r)" and "channel s = Some c" and "ch_paused c"
  shows "(\<exists>c'. channel (setPositional False (setPositional True s)) = Some c' \<and>
            ch_paused c' \<and> ch_suspended c' = ch_suspended c) \<and>
         (enabled s \<and> entity_enabled s \<and> \<not> is3d s \<longrightarrow>
            calls (setPositional False (setPositional True s)) =
              calls s @ [ChStop (ch_id c), PlaySound3d (Sound r) (entity_position s),
                         ChStop (next_channel s), PlaySound (Sound r)] \<and>
            (\<exists>c'. channel (setPositional False (setPositional True s)) = Some c' \<and>
               ch_id c' = Suc (next_channel s) \<and> \<not> ch_3d c'))"
  using assms
  by (auto simp: setPositional_def onSet3d_def play_def stop_def playSound_def playSound3d_def
      new_channel_def cur_sources_def truthy_entry_def js_key_def truthy_name_def Let_def)

theorem C5_witness:
  "initialized world_paused \<and> currentSource world_paused = Some ''a'' \<and>
   cur_sources world_paused ''a'' = Some (Some 5) \<and>
   channel world_paused = Some (chan0\<lparr>ch_paused := True\<rparr>) \<and>
   enabled world_paused \<and> entity_enabled world_paused \<and> \<not> is3d world_paused \<and>
   (\<exists>c'. channel (setPositional False (setPositional True world_paused)) = Some c' \<and>
      ch_paused c' \<and> ch_suspended c' = False \<and> ch_id c' = 2 \<and> \<not> ch_3d c') \<and>
   calls (setPositional False (setPositional True world_paused)) =
     [ChPause 0, ChStop 0, PlaySound3d (Sound 5) \<lparr>vx = 0, vy = 0, vz = 0\<rparr>, ChStop 1,
      PlaySound (Sound 5)]"
proof -
  have d: "initialized world_paused" "currentSource world_paused = Some ''a''"
    "''a'' \<noteq> []" "cur_sources world_paused ''a'' = Some (Some 5)"
    "channel world_paused = Some (chan0\<lparr>ch_paused := True\<rparr>)"
    "ch_paused (chan0\<lparr>ch_paused := True\<rparr>)"
    by (simp_all add: world_paused_def world_playing_def chan0_def sim)
  have e: "enabled world_paused" "entity_enabled world_paused" "\<not> is3d world_paused"
    "calls world_paused = [ChPause 0]" "next_channel world_paused = 1"
    "entity_position world_paused = \<lparr>vx = 0, vy = 0, vz = 0\<rparr>"
    "ch_suspended (chan0\<lparr>ch_paused := True\<rparr>) = False" "ch_id (chan0\<lparr>ch_paused := True\<rparr>) = 0"
    by (simp_all add: world_paused_def world_playing_def chan0_def sim)
  from C5_positional_swap_keeps_flags [OF d] show ?thesis
    using d e by (auto simp del: One_nat_def)
qed

text \<open>
  Claim C6. \<^verbatim>\<open>onDisable\<close> pauses the live channel and keeps it. A following
  \<^verbatim>\<open>onEnable\<close>, with the system initialized and \<^verbatim>\<open>activate\<close> false, resumes that very
  channel: the backend sees one pause and one unpause of the channel and no
  \<^verbatim>\<open>playSound\<close>, and no new channel is created.
\<close>

theorem C6_disable_then_enable_resumes:
  assumes "channel s = Some c" and "initialized s" and "\<not> activate s"
  shows "channel (onDisable s) = Some (c\<lparr>ch_paused := True\<rparr>) \<and>
         channel (onEnable (onDisable s)) = Some (c\<lparr>ch_paused := False\<rparr>) \<and>
         calls (onEnable (onDisable s)) = calls s @ [ChPause (ch_id c), ChUnpause (ch_id c)] \<and>
         next_channel (onEnable (onDisable s)) = next_channel s"
proof -
  let ?d = "onDisable s"
  have d: "?d = s\<lparr>calls := calls s @ [ChPause (ch_id c)], channel := Some (c\<lparr>ch_paused := True\<rparr>)\<rparr>"
    using assms by (simp add: onDisable_def pause_def channel_pause_def)
  obtain l where l: "load_unresolved (assets ?d) ?d = ?d\<lparr>loads := l\<rparr>"
    using load_unresolved_loads by blast
  have e: "onEnable ?d = unpause (?d\<lparr>loads := l\<rparr>)"
    using assms by (simp add: onEnable_def l Let_def) (simp add: d)
  show ?thesis
    using assms by (simp add: e) (simp add: d unpause_def channel_unpause_def)
qed

theorem C6_witness:
  "channel world_playing = Some chan0 \<and> initialized world_playing \<and> \<not> activate world_playing \<and>
   channel (onEnable (onDisable world_playing)) = Some (chan0\<lparr>ch_paused := False\<rparr>) \<and>
   calls (onEnable (onDisable world_playing)) = [ChPause 0, ChUnpause 0] \<and>
   next_channel (onEnable (onDisable world_playing)) = 1"
proof -
  have h1: "channel world_playing = Some chan0"
    and h2: "initialized world_playing"
    and h3: "\<not> activate world_playing"
    by (simp_all add: world_playing_def world0_def)
  have c: "calls world_playing = []" "next_channel world_playing = 1" "ch_id chan0 = 0"
    by (simp_all add: world_playing_def world0_def chan0_def)
  from C6_disable_then_enable_resumes [OF h1 h2 h3] show ?thesis
    by (simp add: h1 h2 h3 c)
qed

text \<open>
  Claim C7, as stated, fails: the handler tests the entry for truthiness, not the key for
  presence. The component resolved asset 1 and is subscribed to it; a \<^verbatim>\<open>change\<close> event
  stored null under the name of the asset. The name is a key of \<^verbatim>\<open>data.sources\<close>, and
  the \<^verbatim>\<open>remove\<close> event deletes nothing and leaves \<^verbatim>\<open>currentSource\<close> set.
\<close>

theorem C7_counterexample:
  "listeners (asset_objs world_subscribed_null 1) EvRemove = [OnAssetRemoved] \<and>
   asset_name (asset_objs world_subscribed_null 1) = ''a'' \<and>
   cur_sources world_subscribed_null ''a'' = Some None \<and>
   ''a'' \<in> dom (cur_sources world_subscribed_null) \<and>
   currentSource world_subscribed_null = Some ''a'' \<and>
   ''a'' \<in> dom (cur_sources (step (AssetRemove 1) world_subscribed_null)) \<and>
   currentSource (step (AssetRemove 1) world_subscribed_null) = Some ''a''"
  by (simp add: world_subscribed_null_def sim cong: let_weak_cong)

text \<open>
  Claim C7, amended. When a \<^verbatim>\<open>remove\<close> event fires for an asset on which the
  component's handler \<^verbatim>\<open>onAssetRemoved\<close> is subscribed, and \<^verbatim>\<open>data.sources\<close> holds a
  resource (not null) under the name of the asset, the entry is deleted from that same
  object; if the name is the current source, the live channel (if any) is stopped and
  released and \<^verbatim>\<open>currentSource\<close> becomes null; otherwise \<^verbatim>\<open>currentSource\<close>, the
  channel and the backend log are unchanged. The statement is about the event as the
  registry delivers it, whatever other listeners the asset has; an asset without the
  subscription (one added to the registry after the call, lines 354-361, or one whose
  handler has run and removed itself, line 182) is not covered. Nor is an asset named
  \<^verbatim>\<open>__proto__\<close>, which is never a key of a plain object; the proof does not use that
  hypothesis, it keeps the statement to the names the model stands for.
\<close>

theorem C7_remove_event_truthy_entry:
  assumes sub: "OnAssetRemoved \<in> set (listeners (asset_objs s a) EvRemove)"
    and entry: "cur_sources s (asset_name (asset_objs s a)) = Some (Some r)"
    and plain: "asset_name (asset_objs s a) \<noteq> ''__proto__''"
  shows "cur_sources (step (AssetRemove a) s) = (cur_sources s)(asset_name (asset_objs s a) := None) \<and>
         sources (step (AssetRemove a) s) = sources s \<and>
         (if currentSource s = Some (asset_name (asset_objs s a))
          then channel (step (AssetRemove a) s) = None \<and>
               currentSource (step (AssetRemove a) s) = None \<and>
               calls (step (AssetRemove a) s) =
                 calls s @ (case channel s of Some c \<Rightarrow> [ChStop (ch_id c)] | None \<Rightarrow> [])
          else currentSource (step (AssetRemove a) s) = currentSource s \<and>
               channel (step (AssetRemove a) s) = channel s \<and>
               calls (step (AssetRemove a) s) = calls s)"
proof -
  define nm where "nm = asset_name (asset_objs s a)"
  define P where "P = (\<lambda>t. cur_sources t = cur_sources s \<and> sources t = sources s \<and>
     currentSource t = currentSource s \<and> channel t = channel s \<and> calls t = calls s \<and>
     asset_name (asset_objs t a) = nm)"
  define Q where "Q = (\<lambda>t. cur_sources t = (cur_sources s)(nm := None) \<and> sources t = sources s \<and>
     asset_name (asset_objs t a) = nm \<and> currentSource t \<noteq> Some nm \<and>
     (if currentSource s = Some nm
      then channel t = None \<and> currentSource t = None \<and>
           calls t = calls s @ (case channel s of Some c \<Rightarrow> [ChStop (ch_id c)] | None \<Rightarrow> [])
      else currentSource t = currentSource s \<and> channel t = channel s \<and> calls t = calls s))"
  have off: "\<And>t. cur_sources (asset_off EvRemove OnAssetRemoved a t) = cur_sources t"
    "\<And>t. sources (asset_off EvRemove OnAssetRemoved a t) = sources t"
    "\<And>t. currentSource (asset_off EvRemove OnAssetRemoved a t) = currentSource t"
    "\<And>t. channel (asset_off EvRemove OnAssetRemoved a t) = channel t"
    "\<And>t. calls (asset_off EvRemove OnAssetRemoved a t) = calls t"
    by (simp_all add: asset_off_def cur_sources_def)
  have hit: "Q (onAssetRemoved a t)" if "P t" for t
  proof -
    have "truthy_entry (cur_sources t) nm = Some (Sound r)"
      using that entry by (simp add: P_def nm_def truthy_entry_def)
    then show ?thesis
      using that
      by (simp add: P_def Q_def onAssetRemoved_def asset_off_frame off Let_def)
         (simp add: asset_off_def cur_sources_def stop_def split: option.splits)
  qed
  have keep1: "Q (onAssetRemoved a t)" if "Q t" for t
  proof (cases "truthy_entry (cur_sources t) nm")
    case None
    then show ?thesis
      using that by (simp add: Q_def onAssetRemoved_def asset_off_frame off Let_def)
  next
    case (Some v)
    then show ?thesis
      using that
      by (simp add: Q_def onAssetRemoved_def asset_off_frame off Let_def)
         (simp add: asset_off_def cur_sources_def)
  qed
  have keep: "Q (notify_remove a l t)" if "Q t" for l t
    using that keep1 by (cases l) simp_all
  have skip: "P (notify_remove a l t)" if "P t" and "l \<noteq> OnAssetRemoved" for l t
    using that by (cases l) simp_all
  have hit': "Q (notify_remove a OnAssetRemoved t)" if "P t" for t
    using that hit by simp
  have start: "P (s\<lparr>registry := registry s - {a}\<rparr>)"
    by (simp add: P_def nm_def cur_sources_def)
  have "Q (fold (notify_remove a) (listeners (asset_objs s a) EvRemove)
            (s\<lparr>registry := registry s - {a}\<rparr>))"
    using keep skip hit' start sub by (rule fold_reaches [where P = P and h = OnAssetRemoved])
  then show ?thesis
    by (simp add: Q_def nm_def)
qed

theorem C7_witness:
  "OnAssetRemoved \<in> set (listeners (asset_objs world_subscribed 1) EvRemove) \<and>
   cur_sources world_subscribed (asset_name (asset_objs world_subscribed 1)) = Some (Some 5) \<and>
   asset_name (asset_objs world_subscribed 1) \<noteq> ''__proto__'' \<and>
   currentSource world_subscribed = Some (asset_name (asset_objs world_subscribed 1)) \<and>
   cur_sources (step (AssetRemove 1) world_subscribed) ''a'' = None \<and>
   channel (step (AssetRemove 1) world_subscribed) = None \<and>
   currentSource (step (AssetRemove 1) world_subscribed) = None \<and>
   calls (step (AssetRemove 1) world_subscribed) = [PlaySound (Sound 5), ChStop 0]"
proof -
  note f = world_subscribed_facts
  have h1: "OnAssetRemoved \<in> set (listeners (asset_objs world_subscribed 1) EvRemove)"
    by (simp add: f del: One_nat_def)
  have h2: "cur_sources world_subscribed (asset_name (asset_objs world_subscribed 1)) = Some (Some 5)"
    by (simp add: f del: One_nat_def)
  have h3: "asset_name (asset_objs world_subscribed 1) \<noteq> ''__proto__''"
    by (simp add: f del: One_nat_def)
  obtain c where c: "channel world_subscribed = Some c" "ch_id c = 0"
    using f(5) by (cases "channel world_subscribed") auto
  from C7_remove_event_truthy_entry [OF h1 h2 h3] show ?thesis
    using h1 h2 by (simp add: f c del: One_nat_def step.simps)
qed

text \<open>
  Claim C8. Each of the seven parameter setters, called with the value the component
  already stores, leaves the whole state as it is: the log of backend calls and the
  channel included, whether a channel is live or not and whatever its mode.
\<close>

theorem C8_setter_same_value_is_noop:
  "setLoop (loop s) s = s \<and> setVolume (volume s) s = s \<and> setPitch (pitch s) s = s \<and>
   setMinDistance (minDistance s) s = s \<and> setMaxDistance (maxDistance s) s = s \<and>
   setRollOffFactor (rollOffFactor s) s = s \<and> setDistanceModel (distanceModel s) s = s"
  by (simp add: setLoop_def setVolume_def setPitch_def setMinDistance_def setMaxDistance_def
      setRollOffFactor_def setDistanceModel_def onSetLoop_def onSetVolume_def onSetPitch_def
      onSetMinDistance_def onSetMaxDistance_def onSetRollOffFactor_def onSetDistanceModel_def)

theorem C8_witness:
  "volume world_playing = 1 \<and> setVolume 1 world_playing = world_playing \<and>
   calls (setVolume 1 world_playing) = [] \<and> channel (setVolume 1 world_playing) = Some chan0"
proof -
  have v: "volume world_playing = 1" "calls world_playing = []" "channel world_playing = Some chan0"
    by (simp_all add: world_playing_def world0_def)
  from C8_setter_same_value_is_noop [of world_playing] have "setVolume 1 world_playing = world_playing"
    by (simp add: v)
  then show ?thesis by (simp add: v)
qed




text \<open>
  Claim C10, as stated, fails for the plane's own vectors: the plane holds references, and
  a caller may pass one of them as \<^verbatim>\<open>point\<close>. Here the plane's normal is passed; the
  call returns true and the normal, (0, 0, 1) before, is (1, 0, 0) after.
\<close>

theorem C10_counterexample:
  "normal (planes store0 0) = 2 \<and> vecs store0 2 = \<lparr>vx = 0, vy = 0, vz = 1\<rparr> \<and>
   fst (intersectsLine dot3 lerp3 0 3 4 (Some 2) store0) \<and>
   vecs (snd (intersectsLine dot3 lerp3 0 3 4 (Some 2) store0)) 2 = \<lparr>vx = 1, vy = 0, vz = 0\<rparr>"
  by (simp add: intersectsLine_def store0_def dot3_def lerp3_def Let_def)

text \<open>
  Claim C10, amended. \<^verbatim>\<open>intersectsLine\<close> assigns to the vector passed as \<^verbatim>\<open>point\<close>
  exactly when it returns true and the parameter was supplied; when it returns false
  nothing changes; the fields \<^verbatim>\<open>point\<close> and \<^verbatim>\<open>normal\<close> of every plane keep referring
  to the same vectors; and every vector other than the one passed as \<^verbatim>\<open>point\<close> keeps
  its content, so the plane's point and normal keep theirs unless one of them is the
  vector passed as \<^verbatim>\<open>point\<close>.
\<close>

theorem C10_intersectsLine_frame:
  "planes (snd (intersectsLine dot lerp this start end' out_point st)) = planes st \<and>
   written (snd (intersectsLine dot lerp this start end' out_point st)) =
     written st @
       (case out_point of
          Some p \<Rightarrow> (if fst (intersectsLine dot lerp this start end' out_point st) then [p] else [])
        | None \<Rightarrow> []) \<and>
   (\<not> fst (intersectsLine dot lerp this start end' out_point st) \<longrightarrow>
      snd (intersectsLine dot lerp this start end' out_point st) = st) \<and>
   (\<forall>q. out_point \<noteq> Some q \<longrightarrow>
      vecs (snd (intersectsLine dot lerp this start end' out_point st)) q = vecs st q)"
  by (auto simp: intersectsLine_def Let_def split: option.splits)

theorem C10_witness:
  "fst (intersectsLine dot3 lerp3 0 3 4 (Some 5) store0) \<and>
   written (snd (intersectsLine dot3 lerp3 0 3 4 (Some 5) store0)) = [5] \<and>
   vecs (snd (intersectsLine dot3 lerp3 0 3 4 (Some 5) store0)) 1 = vecs store0 1 \<and>
   vecs (snd (intersectsLine dot3 lerp3 0 3 4 (Some 5) store0)) 2 = vecs store0 2 \<and>
   planes (snd (intersectsLine dot3 lerp3 0 3 4 (Some 5) store0)) = planes store0 \<and>
   \<not> fst (intersectsLine dot3 lerp3 0 3 3 (Some 5) store0) \<and>
   snd (intersectsLine dot3 lerp3 0 3 3 (Some 5) store0) = store0"
proof -
  have t: "fst (intersectsLine dot3 lerp3 0 3 4 (Some 5) store0)"
    and f: "\<not> fst (intersectsLine dot3 lerp3 0 3 3 (Some 5) store0)"
    by (simp_all add: intersectsLine_def store0_def dot3_def Let_def)
  have w: "written store0 = []"
    by (simp add: store0_def)
  from C10_intersectsLine_frame [of dot3 lerp3 0 3 4 "Some 5" store0]
    C10_intersectsLine_frame [of dot3 lerp3 0 3 3 "Some 5" store0]
  show ?thesis
    using t f w by simp
qed

end
